theory Spec2Isabelle
  imports Complex_Main "HOL-Library.Sublist"
begin

section \<open>JavaScript numbers\<close>

text \<open>
  A JavaScript number is modelled as a rational or one of the three special values of
  IEEE arithmetic. The comparison view computes on exact rationals, with what a division
  by zero yields; the choice of an aspect ratio, which compares differences that can be
  smaller than a rounding error, computes on doubles, each operation rounded (further
  below). Only the operations the program applies to a possibly non-finite value are
  defined here; values that stay finite are plain rationals.
\<close>

datatype number = Num rat | PosInfinity | NegInfinity | NaN

text \<open>\<^verbatim>\<open>a / b\<close> on two finite numbers (the divisor, when zero, is a positive zero).\<close>

definition num_div :: "rat \<Rightarrow> rat \<Rightarrow> number" where
  "num_div a b =
     (if b \<noteq> 0 then Num (a / b)
      else if 0 < a then PosInfinity
      else if a < 0 then NegInfinity
      else NaN)"

text \<open>\<^verbatim>\<open>x * c\<close> for a finite positive constant \<open>c\<close>.\<close>

fun num_times_pos :: "number \<Rightarrow> rat \<Rightarrow> number" where
  "num_times_pos (Num a) c = Num (a * c)"
| "num_times_pos PosInfinity c = PosInfinity"
| "num_times_pos NegInfinity c = NegInfinity"
| "num_times_pos NaN c = NaN"

text \<open>\<^verbatim>\<open>Math.abs\<close>.\<close>

fun Math_abs :: "number \<Rightarrow> number" where
  "Math_abs (Num a) = Num \<bar>a\<bar>"
| "Math_abs PosInfinity = PosInfinity"
| "Math_abs NegInfinity = PosInfinity"
| "Math_abs NaN = NaN"

text \<open>\<^verbatim>\<open>x < y\<close>: false as soon as one side is NaN.\<close>

fun num_less :: "number \<Rightarrow> number \<Rightarrow> bool" where
  "num_less NaN y = False"
| "num_less x NaN = False"
| "num_less (Num a) (Num b) = (a < b)"
| "num_less (Num a) PosInfinity = True"
| "num_less (Num a) NegInfinity = False"
| "num_less PosInfinity y = False"
| "num_less NegInfinity NegInfinity = False"
| "num_less NegInfinity y = True"

text \<open>\<^verbatim>\<open>Math.min(c, x)\<close> and \<^verbatim>\<open>Math.max(c, x)\<close> for a finite \<open>c\<close>: NaN is contagious.\<close>

fun Math_min :: "rat \<Rightarrow> number \<Rightarrow> number" where
  "Math_min c (Num a) = Num (min c a)"
| "Math_min c PosInfinity = Num c"
| "Math_min c NegInfinity = NegInfinity"
| "Math_min c NaN = NaN"

fun Math_max :: "rat \<Rightarrow> number \<Rightarrow> number" where
  "Math_max c (Num a) = Num (max c a)"
| "Math_max c PosInfinity = PosInfinity"
| "Math_max c NegInfinity = Num c"
| "Math_max c NaN = NaN"

section \<open>ComparisonView: slider, pan and zoom state\<close>

text \<open>
  The component's hooks (\<^verbatim>\<open>useState\<close>, \<^verbatim>\<open>useRef\<close>) as one record. \<open>scale\<close> and
  \<open>pan\<close> are only ever computed from finite values by addition, subtraction and
  multiplication or division by a non-zero constant, so they are rationals;
  \<open>sliderPosition\<close> comes out of a division by the container's width.
\<close>

record view_state =
  isResizing :: bool
  sliderPosition :: number
  scale :: rat
  pan :: "rat \<times> rat"
  isPanning :: bool
  panStartRef :: "(rat \<times> rat) option"

text \<open>The two fields read from \<^verbatim>\<open>getBoundingClientRect()\<close>.\<close>

record DOMRect =
  left :: rat
  width :: rat

definition initial_view :: view_state where
  "initial_view =
     \<lparr>isResizing = False, sliderPosition = Num 50, scale = 1, pan = (0, 0),
      isPanning = False, panStartRef = None\<rparr>"

text \<open>\<open>container\<close> is \<^verbatim>\<open>containerRef.current\<close> (\<open>None\<close> when the ref is unset).\<close>

definition updateSliderPosition :: "DOMRect option \<Rightarrow> rat \<Rightarrow> view_state \<Rightarrow> view_state" where
  "updateSliderPosition container clientX st =
     (case container of
        None \<Rightarrow> st
      | Some rect \<Rightarrow>
          let newPos = num_times_pos (num_div (clientX - left rect) (width rect)) 100
          in st\<lparr>sliderPosition := Math_max 0 (Math_min 100 newPos)\<rparr>)"

definition startResizing :: "DOMRect option \<Rightarrow> rat \<Rightarrow> view_state \<Rightarrow> view_state" where
  "startResizing container clientX st =
     updateSliderPosition container clientX (st\<lparr>isResizing := True\<rparr>)"

definition stopResizing :: "view_state \<Rightarrow> view_state" where
  "stopResizing st = st\<lparr>isResizing := False\<rparr>"

definition startPanning :: "rat \<Rightarrow> rat \<Rightarrow> view_state \<Rightarrow> view_state" where
  "startPanning clientX clientY st =
     st\<lparr>isPanning := True,
        panStartRef := Some (clientX - fst (pan st), clientY - snd (pan st))\<rparr>"

definition stopPanning :: "view_state \<Rightarrow> view_state" where
  "stopPanning st = st\<lparr>isPanning := False, panStartRef := None\<rparr>"

definition handleMove :: "DOMRect option \<Rightarrow> rat \<Rightarrow> rat \<Rightarrow> view_state \<Rightarrow> view_state" where
  "handleMove container clientX clientY st =
     (if isResizing st then updateSliderPosition container clientX st
      else if isPanning st then
        (case panStartRef st of
           None \<Rightarrow> st
         | Some start \<Rightarrow> st\<lparr>pan := (clientX - fst start, clientY - snd start)\<rparr>)
      else st)"

definition handleUp :: "view_state \<Rightarrow> view_state" where
  "handleUp st =
     (let st1 = (if isResizing st then stopResizing st else st)
      in if isPanning st then stopPanning st1 else st1)"

definition handleZoomIn :: "view_state \<Rightarrow> view_state" where
  "handleZoomIn st = st\<lparr>scale := min (scale st * 1.5) 8\<rparr>"

definition handleZoomOut :: "view_state \<Rightarrow> view_state" where
  "handleZoomOut st =
     (let newScale = scale st / 1.5
      in if newScale < 1.1 then st\<lparr>pan := (0, 0), scale := 1\<rparr>
         else st\<lparr>scale := newScale\<rparr>)"

definition handleReset :: "view_state \<Rightarrow> view_state" where
  "handleReset st = st\<lparr>scale := 1, pan := (0, 0), sliderPosition := Num 50\<rparr>"

definition handleContainerMouseDown ::
    "DOMRect option \<Rightarrow> rat \<Rightarrow> rat \<Rightarrow> view_state \<Rightarrow> view_state" where
  "handleContainerMouseDown container clientX clientY st =
     (if 1 < scale st then startPanning clientX clientY st
      else startResizing container clientX st)"

text \<open>The user's gestures on the component, each with the geometry the browser reports.\<close>

datatype view_event =
    ContainerMouseDown "DOMRect option" rat rat
  | HandleMouseDown "DOMRect option" rat
  | Move "DOMRect option" rat rat
  | Up
  | ZoomIn
  | ZoomOut
  | Reset

fun view_step :: "view_state \<Rightarrow> view_event \<Rightarrow> view_state" where
  "view_step st (ContainerMouseDown c x y) = handleContainerMouseDown c x y st"
| "view_step st (HandleMouseDown c x) = startResizing c x st"
| "view_step st (Move c x y) = handleMove c x y st"
| "view_step st Up = handleUp st"
| "view_step st ZoomIn = handleZoomIn st"
| "view_step st ZoomOut = handleZoomOut st"
| "view_step st Reset = handleReset st"

definition view_run :: "view_state \<Rightarrow> view_event list \<Rightarrow> view_state" where
  "view_run st evs = foldl view_step st evs"

text \<open>A number lies in the closed interval \<open>[lo, hi]\<close>.\<close>

fun num_between :: "rat \<Rightarrow> rat \<Rightarrow> number \<Rightarrow> bool" where
  "num_between lo hi (Num a) = (lo \<le> a \<and> a \<le> hi)"
| "num_between lo hi x = False"

text \<open>The container an event reports, if it reports one.\<close>

fun event_rect :: "view_event \<Rightarrow> DOMRect option" where
  "event_rect (ContainerMouseDown c x y) = c"
| "event_rect (HandleMouseDown c x) = c"
| "event_rect (Move c x y) = c"
| "event_rect ev = None"

definition laid_out :: "view_event \<Rightarrow> bool" where
  "laid_out ev = (case event_rect ev of None \<Rightarrow> True | Some rect \<Rightarrow> 0 < width rect)"

text \<open>Example geometry, states and gestures.\<close>

definition container_400 :: DOMRect where
  "container_400 = \<lparr>left = 20, width = 400\<rparr>"

definition collapsed_container :: DOMRect where
  "collapsed_container = \<lparr>left = 0, width = 0\<rparr>"

definition near_unity :: view_state where
  "near_unity = initial_view\<lparr>scale := 1.05, pan := (7, - 3)\<rparr>"

definition zoomed_3 :: view_state where
  "zoomed_3 = initial_view\<lparr>scale := 3, pan := (7, - 3)\<rparr>"

definition zoom_sequence :: "view_event list" where
  "zoom_sequence = [ZoomIn, ZoomIn, ZoomIn, ZoomIn, ZoomIn, ZoomIn, ZoomOut]"

definition drag_sequence :: "view_event list" where
  "drag_sequence =
     [HandleMouseDown (Some container_400) 120, Move (Some container_400) 900 35, Up,
      ZoomIn, ContainerMouseDown (Some container_400) 50 60]"

section \<open>Strings\<close>

text \<open>
  Strings are lists of 8-bit characters. \<^verbatim>\<open>toLowerCase\<close> is modelled on the ASCII
  letters; every other character is left as it is. No character outside ASCII lower-cases
  to a digit, a colon or one of the letters of \<^verbatim>\<open>square\<close>, so the keyword scan below does
  not depend on that part of the Unicode case mapping.
\<close>

definition toLowerCase_char :: "char \<Rightarrow> char" where
  "toLowerCase_char c =
     (case map_of (zip ''ABCDEFGHIJKLMNOPQRSTUVWXYZ'' ''abcdefghijklmnopqrstuvwxyz'') c of
        Some l \<Rightarrow> l
      | None \<Rightarrow> c)"

definition toLowerCase :: "string \<Rightarrow> string" where
  "toLowerCase str = map toLowerCase_char str"

text \<open>\<^verbatim>\<open>str.includes(search)\<close>: \<open>search\<close> occurs in \<open>str\<close> as a contiguous run.\<close>

definition includes_str :: "string \<Rightarrow> string \<Rightarrow> bool" where
  "includes_str str search = sublist search str"

text \<open>\<^verbatim>\<open>parts.join(sep)\<close>.\<close>

fun join :: "string \<Rightarrow> string list \<Rightarrow> string" where
  "join sep [] = []"
| "join sep [x] = x"
| "join sep (x # y # ys) = x @ sep @ join sep (y # ys)"

section \<open>Double-precision arithmetic\<close>

text \<open>
  Rounding to the nearest double, ties to the even mantissa. \<open>ilog2 x\<close> is the
  exponent of a positive \<open>x\<close>, the integer \<open>e\<close> with \<open>2 ^ e \<le> x < 2 ^ (e + 1)\<close>;
  a double has 53 significant bits, so the spacing of the doubles around \<open>x\<close> is
  \<open>2 ^ (e - 52)\<close>, and \<open>2 ^ (- 1022 - 52)\<close> below the normal range. A result of
  magnitude \<open>2 ^ 1024\<close> or more is an infinity. The sign of a zero is not modelled.
\<close>

fun bit_length :: "nat \<Rightarrow> nat" where
  "bit_length n = (if n = 0 then 0 else Suc (bit_length (n div 2)))"

declare bit_length.simps [simp del]

definition ilog2 :: "rat \<Rightarrow> int" where
  "ilog2 x =
     (if 1 \<le> x then int (bit_length (nat \<lfloor>x\<rfloor>)) - 1
      else - int (bit_length (nat (\<lceil>1 / x\<rceil> - 1))))"

definition pow2 :: "int \<Rightarrow> rat" where
  "pow2 e = (if 0 \<le> e then 2 ^ nat e else 1 / 2 ^ nat (- e))"

definition round_half_even :: "rat \<Rightarrow> int" where
  "round_half_even x =
     (if x - of_int \<lfloor>x\<rfloor> < 1 / 2 then \<lfloor>x\<rfloor>
      else if 1 / 2 < x - of_int \<lfloor>x\<rfloor> then \<lfloor>x\<rfloor> + 1
      else if even \<lfloor>x\<rfloor> then \<lfloor>x\<rfloor> else \<lfloor>x\<rfloor> + 1)"

definition round_double :: "rat \<Rightarrow> number" where
  "round_double x =
     (if x = 0 then Num 0
      else
        let e = max (ilog2 \<bar>x\<bar>) (- 1022);
            y = of_int (round_half_even (x / pow2 (e - 52))) * pow2 (e - 52)
        in if pow2 1024 \<le> \<bar>y\<bar> then (if 0 < x then PosInfinity else NegInfinity)
           else Num y)"


text \<open>\<^verbatim>\<open>a / b\<close> on two doubles (the divisor, when zero, is a positive zero).\<close>

definition fl_div :: "rat \<Rightarrow> rat \<Rightarrow> number" where
  "fl_div a b =
     (if b \<noteq> 0 then round_double (a / b)
      else if 0 < a then PosInfinity
      else if a < 0 then NegInfinity
      else NaN)"

text \<open>\<^verbatim>\<open>x - y\<close>.\<close>

fun fl_sub :: "number \<Rightarrow> number \<Rightarrow> number" where
  "fl_sub NaN y = NaN"
| "fl_sub x NaN = NaN"
| "fl_sub (Num a) (Num b) = round_double (a - b)"
| "fl_sub (Num a) PosInfinity = NegInfinity"
| "fl_sub (Num a) NegInfinity = PosInfinity"
| "fl_sub PosInfinity PosInfinity = NaN"
| "fl_sub PosInfinity y = PosInfinity"
| "fl_sub NegInfinity NegInfinity = NaN"
| "fl_sub NegInfinity y = NegInfinity"

section \<open>getBestAspectRatio\<close>

record SuggestedEdit =
  edit :: string
  reason :: string

text \<open>
  \<^verbatim>\<open>arr.reduce(f)\<close> without an initial value: the first element starts the accumulation;
  on an empty array it throws (\<open>None\<close>).
\<close>

fun reduce :: "('a \<Rightarrow> 'a \<Rightarrow> 'a) \<Rightarrow> 'a list \<Rightarrow> 'a option" where
  "reduce f [] = None"
| "reduce f (x # xs) = Some (foldl f x xs)"

text \<open>
  The table \<^verbatim>\<open>supported\<close>: each entry \<^verbatim>\<open>{ s, v }\<close> as the pair \<open>(s, v)\<close>, with
  \<open>v\<close> the decimal as it is written; the number the program holds is its rounding.
\<close>

definition supported :: "(string \<times> rat) list" where
  "supported =
     [(''1:1'', 1), (''3:4'', 0.75), (''4:3'', 1.3333), (''9:16'', 0.5625), (''16:9'', 1.7778)]"

definition combinedEdits :: "SuggestedEdit list \<Rightarrow> string" where
  "combinedEdits edits = join '' '' (map (\<lambda>e. toLowerCase (edit e)) edits)"

text \<open>\<^verbatim>\<open>Math.abs(entry.v - ratio)\<close>, as the program computes it.\<close>

definition computed_distance :: "number \<Rightarrow> string \<times> rat \<Rightarrow> number" where
  "computed_distance ratio entry = Math_abs (fl_sub (round_double (snd entry)) ratio)"

text \<open>The callback of the \<^verbatim>\<open>reduce\<close>: keep \<open>prev\<close> unless the current entry is strictly closer.\<close>

definition closer :: "number \<Rightarrow> string \<times> rat \<Rightarrow> string \<times> rat \<Rightarrow> string \<times> rat" where
  "closer ratio prev current =
     (if num_less (computed_distance ratio current) (computed_distance ratio prev)
      then current else prev)"

definition getBestAspectRatio :: "rat \<Rightarrow> rat \<Rightarrow> SuggestedEdit list \<Rightarrow> string option" where
  "getBestAspectRatio w h edits =
     (if includes_str (combinedEdits edits) ''16:9'' then Some ''16:9''
      else if includes_str (combinedEdits edits) ''9:16'' then Some ''9:16''
      else if includes_str (combinedEdits edits) ''4:3'' then Some ''4:3''
      else if includes_str (combinedEdits edits) ''3:4'' then Some ''3:4''
      else if includes_str (combinedEdits edits) ''1:1'' \<or> includes_str (combinedEdits edits) ''square''
        then Some ''1:1''
      else map_option fst (reduce (closer (fl_div w h)) supported))"

text \<open>
  The ratio tokens of the specification, in its priority order, and the ratio each stands
  for; the plain concatenation of the lower-cased instructions and the absolute
  difference of an entry's value from \<open>w / h\<close>, as the specification words them.
\<close>

definition ratio_keywords :: "string list" where
  "ratio_keywords = [''16:9'', ''9:16'', ''4:3'', ''3:4'', ''1:1'', ''square'']"

definition keyword_ratio :: "string \<Rightarrow> string" where
  "keyword_ratio k = (if k = ''square'' then ''1:1'' else k)"

definition concatenatedEdits :: "SuggestedEdit list \<Rightarrow> string" where
  "concatenatedEdits edits = concat (map (\<lambda>e. toLowerCase (edit e)) edits)"


section \<open>Parsed JSON and the type validation of analyzeImage\<close>

text \<open>
  What \<^verbatim>\<open>JSON.parse\<close> returns. An object is the list of its own properties (one entry
  per key, as the parser leaves it); a missing property reads as \<^verbatim>\<open>undefined\<close>, which is
  \<open>None\<close> below.
\<close>

datatype json =
    JNull
  | JBoolean bool
  | JNumber rat
  | JString string
  | JArray "json list"
  | JObject "(string \<times> json) list"

text \<open>
  A value that was thrown: an \<^verbatim>\<open>Error\<close> with its message, a \<^verbatim>\<open>TypeError\<close> raised by
  the engine with its message, or something that is not an \<^verbatim>\<open>Error\<close> at all (the
  \<^verbatim>\<open>ProgressEvent\<close> a failing \<^verbatim>\<open>FileReader\<close> rejects with).
\<close>

datatype thrown = Error string | TypeError string | NotAnError

text \<open>
  \<^verbatim>\<open>parsedJson.name\<close> for the seven field names read by the validation: reading a
  property of \<^verbatim>\<open>null\<close> throws a \<^verbatim>\<open>TypeError\<close> (with the message V8 gives it);
  numbers, booleans, strings and arrays have no property of those names.
\<close>

definition null_property_message :: "string \<Rightarrow> string" where
  "null_property_message name =
     ''Cannot read properties of null (reading '' @ [CHR 0x27] @ name @ [CHR 0x27] @ '')''"

fun property :: "json \<Rightarrow> string \<Rightarrow> thrown + json option" where
  "property JNull name = Inl (TypeError (null_property_message name))"
| "property (JObject props) name = Inr (map_of props name)"
| "property other name = Inr None"

fun typeof :: "json option \<Rightarrow> string" where
  "typeof None = ''undefined''"
| "typeof (Some JNull) = ''object''"
| "typeof (Some (JBoolean b)) = ''boolean''"
| "typeof (Some (JNumber n)) = ''number''"
| "typeof (Some (JString str)) = ''string''"
| "typeof (Some (JArray xs)) = ''object''"
| "typeof (Some (JObject props)) = ''object''"

fun isArray :: "json option \<Rightarrow> bool" where
  "isArray (Some (JArray xs)) = True"
| "isArray other = False"

definition structure_message :: string where
  "structure_message = ''API response does not match the expected PhotoAnalysis structure.''"

definition analysis_failed_message :: string where
  "analysis_failed_message =
     ''Failed to get analysis from Gemini. Please check the console for more details.''"

text \<open>
  The block under \<^verbatim>\<open>// Type validation\<close> in \<^verbatim>\<open>services/geminiService.ts\<close>: the
  disjunction is evaluated left to right, so the first property read decides whether a
  \<^verbatim>\<open>TypeError\<close> is thrown; the value is returned as it was parsed.
\<close>

definition typeValidation :: "json \<Rightarrow> thrown + json" where
  "typeValidation parsedJson =
     (case property parsedJson ''rating'' of
        Inl e \<Rightarrow> Inl e
      | Inr _ \<Rightarrow>
          let field = (\<lambda>name. case property parsedJson name of Inl e \<Rightarrow> None | Inr v \<Rightarrow> v)
          in if typeof (field ''rating'') \<noteq> ''number''
                \<or> typeof (field ''projected_rating'') \<noteq> ''number''
                \<or> typeof (field ''composition'') \<noteq> ''string''
                \<or> typeof (field ''lighting'') \<noteq> ''string''
                \<or> typeof (field ''subject'') \<noteq> ''string''
                \<or> typeof (field ''overall_comment'') \<noteq> ''string''
                \<or> \<not> isArray (field ''suggested_edits'')
             then Inl (Error structure_message)
             else Inr parsedJson)"

text \<open>The same block in the earlier variant of the service, which has no projected rating.\<close>

definition typeValidation_plain :: "json \<Rightarrow> thrown + json" where
  "typeValidation_plain parsedJson =
     (case property parsedJson ''rating'' of
        Inl e \<Rightarrow> Inl e
      | Inr _ \<Rightarrow>
          let field = (\<lambda>name. case property parsedJson name of Inl e \<Rightarrow> None | Inr v \<Rightarrow> v)
          in if typeof (field ''rating'') \<noteq> ''number''
                \<or> typeof (field ''composition'') \<noteq> ''string''
                \<or> typeof (field ''lighting'') \<noteq> ''string''
                \<or> typeof (field ''subject'') \<noteq> ''string''
                \<or> typeof (field ''overall_comment'') \<noteq> ''string''
                \<or> \<not> isArray (field ''suggested_edits'')
             then Inl (Error structure_message)
             else Inr parsedJson)"

text \<open>
  \<^verbatim>\<open>analyzeImage\<close>, given whether the API key is set and what the remote call and
  \<^verbatim>\<open>JSON.parse\<close> produced (\<open>Inl\<close>: one of them threw). Whatever is thrown inside the
  \<^verbatim>\<open>try\<close> is replaced by one fixed error.
\<close>

definition analyzeImage :: "bool \<Rightarrow> thrown + json \<Rightarrow> thrown + json" where
  "analyzeImage api_key response =
     (if \<not> api_key then Inl (Error ''API_KEY environment variable not set'')
      else case response of
             Inl e \<Rightarrow> Inl (Error analysis_failed_message)
           | Inr parsedJson \<Rightarrow>
               (case typeValidation parsedJson of
                  Inl e \<Rightarrow> Inl (Error analysis_failed_message)
                | Inr analysis \<Rightarrow> Inr analysis))"

text \<open>\<^verbatim>\<open>analyzeImage\<close> of the earlier variant: the same, around its own validation.\<close>

definition analyzeImage_plain :: "bool \<Rightarrow> thrown + json \<Rightarrow> thrown + json" where
  "analyzeImage_plain api_key response =
     (if \<not> api_key then Inl (Error ''API_KEY environment variable not set'')
      else case response of
             Inl e \<Rightarrow> Inl (Error analysis_failed_message)
           | Inr parsedJson \<Rightarrow>
               (case typeValidation_plain parsedJson of
                  Inl e \<Rightarrow> Inl (Error analysis_failed_message)
                | Inr analysis \<Rightarrow> Inr analysis))"

text \<open>
  The shape the specification asks for, in its words: a numeric field, a text field, a
  sequence.
\<close>

fun is_numeric :: "json option \<Rightarrow> bool" where
  "is_numeric (Some (JNumber n)) = True"
| "is_numeric other = False"

fun is_text :: "json option \<Rightarrow> bool" where
  "is_text (Some (JString str)) = True"
| "is_text other = False"

fun is_sequence :: "json option \<Rightarrow> bool" where
  "is_sequence (Some (JArray xs)) = True"
| "is_sequence other = False"

definition well_shaped :: "(string \<times> json) list \<Rightarrow> bool" where
  "well_shaped props =
     (is_numeric (map_of props ''rating'')
      \<and> is_numeric (map_of props ''projected_rating'')
      \<and> is_text (map_of props ''composition'')
      \<and> is_text (map_of props ''lighting'')
      \<and> is_text (map_of props ''subject'')
      \<and> is_text (map_of props ''overall_comment'')
      \<and> is_sequence (map_of props ''suggested_edits''))"

definition well_shaped_plain :: "(string \<times> json) list \<Rightarrow> bool" where
  "well_shaped_plain props =
     (is_numeric (map_of props ''rating'')
      \<and> is_text (map_of props ''composition'')
      \<and> is_text (map_of props ''lighting'')
      \<and> is_text (map_of props ''subject'')
      \<and> is_text (map_of props ''overall_comment'')
      \<and> is_sequence (map_of props ''suggested_edits''))"

fun shape_ok :: "json \<Rightarrow> bool" where
  "shape_ok (JObject props) = well_shaped props"
| "shape_ok other = False"

fun shape_ok_plain :: "json \<Rightarrow> bool" where
  "shape_ok_plain (JObject props) = well_shaped_plain props"
| "shape_ok_plain other = False"

text \<open>The field names a message could name.\<close>

definition field_names :: "string list" where
  "field_names =
     [''rating'', ''projected_rating'', ''composition'', ''lighting'', ''subject'',
      ''overall_comment'', ''suggested_edits'',
      ''projectedRating'', ''overallComment'', ''suggestedEdits'']"

text \<open>Example responses.\<close>

definition example_analysis :: json where
  "example_analysis =
     JObject [(''rating'', JNumber 7), (''projected_rating'', JNumber 8.5),
              (''composition'', JString ''Balanced''), (''lighting'', JString ''Flat''),
              (''subject'', JString ''Sharp''), (''overall_comment'', JString ''Good''),
              (''suggested_edits'',
                 JArray [JObject [(''edit'', JString ''Increase contrast by 15%''),
                                  (''reason'', JString ''Adds depth'')],
                         JObject [(''edit'', JString ''Warm white balance''),
                                  (''reason'', JString ''Skin tones'')],
                         JObject [(''edit'', JString ''Crop to 4:3''),
                                  (''reason'', JString ''Tighter frame'')]])]"

definition rating_as_string :: json where
  "rating_as_string =
     JObject [(''rating'', JString ''7''), (''projected_rating'', JNumber 8.5),
              (''composition'', JString ''Balanced''), (''lighting'', JString ''Flat''),
              (''subject'', JString ''Sharp''), (''overall_comment'', JString ''Good''),
              (''suggested_edits'', JArray [])]"

definition missing_edits :: json where
  "missing_edits =
     JObject [(''rating'', JNumber 7), (''projected_rating'', JNumber 8.5),
              (''composition'', JString ''Balanced''), (''lighting'', JString ''Flat''),
              (''subject'', JString ''Sharp''), (''overall_comment'', JString ''Good'')]"

definition odd_but_accepted :: json where
  "odd_but_accepted =
     JObject [(''rating'', JNumber 42), (''projected_rating'', JNumber (- 3)),
              (''composition'', JString []), (''lighting'', JString []),
              (''subject'', JString []), (''overall_comment'', JString []),
              (''suggested_edits'', JArray [])]"

section \<open>App: the workflow controller\<close>

record File =
  file_name :: string
  file_type :: string
  file_data :: string

record Blob =
  blob_type :: string
  blob_data :: string

text \<open>
  The component's state hooks that the handlers touch. \<open>previewUrl\<close> and
  \<open>editedImage\<close> are URL strings, \<open>analysisResult\<close> is the value \<^verbatim>\<open>analyzeImage\<close>
  resolved with.
\<close>

record app_state =
  selectedFile :: "File option"
  previewUrl :: "string option"
  analysisResult :: "json option"
  isLoadingAnalysis :: bool
  analysisError :: "string option"
  isEditing :: bool
  editedImage :: "string option"
  editError :: "string option"

definition initial_app :: app_state where
  "initial_app =
     \<lparr>selectedFile = None, previewUrl = None, analysisResult = None,
      isLoadingAnalysis = False, analysisError = None, isEditing = False,
      editedImage = None, editError = None\<rparr>"

text \<open>JavaScript truthiness of the values the handlers and the render test.\<close>

fun truthy_string :: "string option \<Rightarrow> bool" where
  "truthy_string None = False"
| "truthy_string (Some str) = (str \<noteq> [])"

fun truthy_json :: "json option \<Rightarrow> bool" where
  "truthy_json None = False"
| "truthy_json (Some JNull) = False"
| "truthy_json (Some (JBoolean b)) = b"
| "truthy_json (Some (JNumber n)) = (n \<noteq> 0)"
| "truthy_json (Some (JString str)) = (str \<noteq> [])"
| "truthy_json (Some (JArray xs)) = True"
| "truthy_json (Some (JObject props)) = True"

text \<open>\<^verbatim>\<open>err instanceof Error ? err.message : fallback\<close>.\<close>

fun message_or :: "thrown \<Rightarrow> string \<Rightarrow> string" where
  "message_or (Error m) fallback = m"
| "message_or (TypeError m) fallback = m"
| "message_or NotAnError fallback = fallback"

text \<open>
  An \<^verbatim>\<open>async\<close> handler runs up to its first \<^verbatim>\<open>await\<close> when it is called and is resumed
  later, when what it awaits has settled; other handlers can run in between. Each handler
  is therefore a function for the part that runs at the call, which returns the new state
  and the asynchronous work it has started (\<open>None\<close>: it returned before starting any, so
  no request leaves the application), and one function for each resumption, which takes
  the outcome, the values the closure captured and the state at that moment.
\<close>

datatype pending =
    AnalyzePending File
  | EditPending File json
  | ReanalyzePending string

text \<open>\<open>createObjectURL\<close> is the browser's \<^verbatim>\<open>URL.createObjectURL\<close>.\<close>

definition handleImageSelect ::
    "(File \<Rightarrow> string) \<Rightarrow> File option \<Rightarrow> app_state \<Rightarrow> app_state" where
  "handleImageSelect createObjectURL chosen s =
     (let s1 = s\<lparr>analysisResult := None, analysisError := None,
                 editedImage := None, editError := None\<rparr>
      in case chosen of
           Some f \<Rightarrow> s1\<lparr>selectedFile := Some f, previewUrl := Some (createObjectURL f)\<rparr>
         | None \<Rightarrow> s1\<lparr>selectedFile := None, previewUrl := None\<rparr>)"

definition handleAnalyzeClick :: "app_state \<Rightarrow> app_state \<times> pending option" where
  "handleAnalyzeClick s =
     (case selectedFile s of
        None \<Rightarrow> (s\<lparr>analysisError := Some ''Please select an image file first.''\<rparr>, None)
      | Some f \<Rightarrow>
          (s\<lparr>isLoadingAnalysis := True, analysisError := None,
             analysisResult := None, editedImage := None\<rparr>,
           Some (AnalyzePending f)))"

text \<open>
  The rest of \<^verbatim>\<open>handleAnalyzeClick\<close>: \<open>outcome\<close> is what
  \<^verbatim>\<open>fileToBase64\<close> followed by \<^verbatim>\<open>analyzeImage\<close> settled with.
\<close>

definition handleAnalyzeClick_settled :: "thrown + json \<Rightarrow> app_state \<Rightarrow> app_state" where
  "handleAnalyzeClick_settled outcome s =
     (case outcome of
        Inr result \<Rightarrow> s\<lparr>analysisResult := Some result, isLoadingAnalysis := False\<rparr>
      | Inl err \<Rightarrow>
          s\<lparr>analysisError := Some (message_or err ''An unknown error occurred during analysis.''),
            isLoadingAnalysis := False\<rparr>)"

definition handleEditClick :: "app_state \<Rightarrow> app_state \<times> pending option" where
  "handleEditClick s =
     (case selectedFile s of
        None \<Rightarrow> (s, None)
      | Some f \<Rightarrow>
          (case analysisResult s of
             None \<Rightarrow> (s, None)
           | Some a \<Rightarrow>
               if \<not> truthy_json (Some a) then (s, None)
               else (s\<lparr>isEditing := True, editError := None\<rparr>, Some (EditPending f a))))"

text \<open>
  The rest of \<^verbatim>\<open>handleEditClick\<close>: \<open>outcome\<close> is what reading the file, measuring
  the image and \<^verbatim>\<open>generateImprovedImage\<close> settled with (the base64 payload on success).
\<close>

definition handleEditClick_settled :: "thrown + string \<Rightarrow> app_state \<Rightarrow> app_state" where
  "handleEditClick_settled outcome s =
     (case outcome of
        Inr improvedImageBase64 \<Rightarrow>
          s\<lparr>editedImage := Some (''data:image/png;base64,'' @ improvedImageBase64),
            isEditing := False\<rparr>
      | Inl err \<Rightarrow>
          s\<lparr>editError := Some (message_or err ''Failed to generate edited image.''),
            isEditing := False\<rparr>)"

definition handleReanalyzeEdited :: "app_state \<Rightarrow> app_state \<times> pending option" where
  "handleReanalyzeEdited s =
     (case editedImage s of
        None \<Rightarrow> (s, None)
      | Some newImageSrc \<Rightarrow>
          if \<not> truthy_string (Some newImageSrc) then (s, None)
          else (s\<lparr>isLoadingAnalysis := True, analysisResult := None, analysisError := None,
                  editedImage := None, isEditing := False, editError := None\<rparr>,
                Some (ReanalyzePending newImageSrc)))"

text \<open>
  \<^verbatim>\<open>handleReanalyzeEdited\<close> resumed after \<^verbatim>\<open>fetch(newImageSrc)\<close> and
  \<^verbatim>\<open>res.blob()\<close>: on success the file and the preview are replaced and the analysis of
  the new file is started; a failure goes to the \<^verbatim>\<open>catch\<close> and the \<^verbatim>\<open>finally\<close>.
\<close>

definition handleReanalyzeEdited_fetched ::
    "string \<Rightarrow> thrown + Blob \<Rightarrow> app_state \<Rightarrow> app_state \<times> pending option" where
  "handleReanalyzeEdited_fetched newImageSrc outcome s =
     (case outcome of
        Inr b \<Rightarrow>
          let f = \<lparr>file_name = ''improved-photo.png'', file_type = blob_type b,
                   file_data = blob_data b\<rparr>
          in (s\<lparr>selectedFile := Some f, previewUrl := Some newImageSrc\<rparr>,
              Some (AnalyzePending f))
      | Inl err \<Rightarrow>
          (s\<lparr>analysisError := Some ''Failed to re-analyze the improved image.'',
             isLoadingAnalysis := False\<rparr>, None))"

text \<open>
  \<^verbatim>\<open>handleReanalyzeEdited\<close> resumed after \<^verbatim>\<open>fileToBase64\<close> and
  \<^verbatim>\<open>analyzeImage\<close>.
\<close>

definition handleReanalyzeEdited_settled :: "thrown + json \<Rightarrow> app_state \<Rightarrow> app_state" where
  "handleReanalyzeEdited_settled outcome s =
     (case outcome of
        Inr result \<Rightarrow> s\<lparr>analysisResult := Some result, isLoadingAnalysis := False\<rparr>
      | Inl err \<Rightarrow>
          s\<lparr>analysisError := Some ''Failed to re-analyze the improved image.'',
            isLoadingAnalysis := False\<rparr>)"

text \<open>
  \<^verbatim>\<open>fetch(newImageSrc)\<close> followed by \<^verbatim>\<open>res.blob()\<close>, for the URLs the application
  fetches: \<open>editedImage\<close> only ever holds a \<^verbatim>\<open>data:image/png;base64,\<close> URL built by
  \<^verbatim>\<open>handleEditClick\<close>. The blob has the media type written in the URL and the bytes its
  body decodes to; \<open>decodeBody\<close> is the browser's decoding of the body of a base64
  \<^verbatim>\<open>data:\<close> URL, \<open>None\<close> when the body is malformed, and then the fetch rejects.
\<close>

definition png_data_url_prefix :: string where
  "png_data_url_prefix = ''data:image/png;base64,''"

definition fetch_blob :: "(string \<Rightarrow> string option) \<Rightarrow> string \<Rightarrow> thrown + Blob" where
  "fetch_blob decodeBody url =
     (if prefix png_data_url_prefix url then
        (case decodeBody (drop (length png_data_url_prefix) url) of
           Some bytes \<Rightarrow> Inr \<lparr>blob_type = ''image/png'', blob_data = bytes\<rparr>
         | None \<Rightarrow> Inl (TypeError ''Failed to fetch''))
      else Inl (TypeError ''Failed to fetch''))"

text \<open>What \<open>editedImage\<close> holds, if anything, is such a URL.\<close>

definition holds_data_url :: "app_state \<Rightarrow> bool" where
  "holds_data_url s =
     (case editedImage s of
        None \<Rightarrow> True
      | Some url \<Rightarrow> prefix png_data_url_prefix url)"

text \<open>
  A re-analysis that nothing interrupts: the handler, then its two resumptions with the
  outcome of the fetch and the outcome of the analysis.
\<close>

definition reanalyzeEdited_run ::
    "(string \<Rightarrow> string option) \<Rightarrow> app_state \<Rightarrow> thrown + json \<Rightarrow> app_state" where
  "reanalyzeEdited_run decodeBody s analysed =
     (case handleReanalyzeEdited s of
        (s1, Some (ReanalyzePending newImageSrc)) \<Rightarrow>
          (case handleReanalyzeEdited_fetched newImageSrc (fetch_blob decodeBody newImageSrc) s1 of
             (s2, Some p) \<Rightarrow> handleReanalyzeEdited_settled analysed s2
           | (s2, None) \<Rightarrow> s2)
      | (s1, other) \<Rightarrow> s1)"

text \<open>
  The values held in the state as JavaScript values: a string is a primitive, equal to
  another by its characters; a \<^verbatim>\<open>File\<close> is an object, and no object is a string.
\<close>

datatype js_value = JSString string | JSFile File

definition selectedFile_value :: "app_state \<Rightarrow> js_value option" where
  "selectedFile_value s = map_option JSFile (selectedFile s)"

definition previewUrl_value :: "app_state \<Rightarrow> js_value option" where
  "previewUrl_value s = map_option JSString (previewUrl s)"

definition editedImage_value :: "app_state \<Rightarrow> js_value option" where
  "editedImage_value s = map_option JSString (editedImage s)"

text \<open>
  What the results column renders, from the conditions of the JSX: the spinner while an
  analysis is loading, the error panel, the analysis, or the placeholder that invites the
  user to analyse a photo (nothing requested, nothing to show).
\<close>

definition showsSpinner :: "app_state \<Rightarrow> bool" where
  "showsSpinner s = isLoadingAnalysis s"

definition showsAnalysisError :: "app_state \<Rightarrow> bool" where
  "showsAnalysisError s = truthy_string (analysisError s)"

definition showsAnalysis :: "app_state \<Rightarrow> bool" where
  "showsAnalysis s =
     (\<not> isLoadingAnalysis s \<and> \<not> truthy_string (analysisError s)
      \<and> truthy_json (analysisResult s))"

definition showsPlaceholder :: "app_state \<Rightarrow> bool" where
  "showsPlaceholder s =
     (\<not> isLoadingAnalysis s \<and> \<not> truthy_string (analysisError s)
      \<and> \<not> truthy_json (analysisResult s))"

text \<open>Example files, URLs and states.\<close>

definition photo_a :: File where
  "photo_a = \<lparr>file_name = ''a.jpg'', file_type = ''image/jpeg'', file_data = ''AAAA''\<rparr>"

definition photo_b :: File where
  "photo_b = \<lparr>file_name = ''b.png'', file_type = ''image/png'', file_data = ''BBBB''\<rparr>"

definition objectURL :: "File \<Rightarrow> string" where
  "objectURL f = ''blob:'' @ file_name f"

text \<open>
  The browser's decoding at the two bodies of the examples: \<^verbatim>\<open>EEEE\<close> is the base64 of
  the bytes 0x10, 0x41, 0x04, and \<^verbatim>\<open>!!!!\<close> is not base64.
\<close>

definition sample_decodeBody :: "string \<Rightarrow> string option" where
  "sample_decodeBody body =
     (if body = ''EEEE'' then Some [CHR 0x10, CHR 0x41, CHR 0x04] else None)"

definition selected_a :: app_state where
  "selected_a = handleImageSelect objectURL (Some photo_a) initial_app"

definition analyzing_a :: app_state where
  "analyzing_a = fst (handleAnalyzeClick selected_a)"

definition ready_a :: app_state where
  "ready_a = handleAnalyzeClick_settled (Inr example_analysis) analyzing_a"

definition crop_for_mobile :: "SuggestedEdit list" where
  "crop_for_mobile = [\<lparr>edit = ''Crop to 9:16 for mobile'', reason = ''Vertical feed''\<rparr>]"

definition split_token :: "SuggestedEdit list" where
  "split_token =
     [\<lparr>edit = ''Crop to 16:'', reason = ''First half''\<rparr>,
      \<lparr>edit = ''9 frame'', reason = ''Second half''\<rparr>]"

definition edit_ready_a :: app_state where
  "edit_ready_a = handleEditClick_settled (Inr ''EEEE'') (fst (handleEditClick ready_a))"

definition edit_ready_malformed :: app_state where
  "edit_ready_malformed =
     handleEditClick_settled (Inr ''!!!!'') (fst (handleEditClick ready_a))"

section \<open>ComparisonView: zoom\<close>

lemma view_step_scale_range:
  assumes "1 \<le> scale st" "scale st \<le> 8"
  shows "1 \<le> scale (view_step st ev) \<and> scale (view_step st ev) \<le> 8"
proof (cases ev)
  case (ContainerMouseDown c x y)
  then show ?thesis using assms
    by (simp add: handleContainerMouseDown_def startPanning_def startResizing_def
        updateSliderPosition_def Let_def split: option.split)
next
  case (HandleMouseDown c x)
  then show ?thesis using assms
    by (simp add: startResizing_def updateSliderPosition_def Let_def split: option.split)
next
  case (Move c x y)
  then show ?thesis using assms
    by (simp add: handleMove_def updateSliderPosition_def Let_def split: option.split)
next
  case Up
  then show ?thesis using assms
    by (simp add: handleUp_def stopResizing_def stopPanning_def Let_def)
next
  case ZoomIn
  then show ?thesis using assms by (simp add: handleZoomIn_def)
next
  case ZoomOut
  then show ?thesis using assms by (simp add: handleZoomOut_def Let_def)
next
  case Reset
  then show ?thesis by (simp add: handleReset_def)
qed

lemma view_run_scale_range:
  "1 \<le> scale st \<Longrightarrow> scale st \<le> 8 \<Longrightarrow>
   1 \<le> scale (view_run st evs) \<and> scale (view_run st evs) \<le> 8"
  unfolding view_run_def
proof (induction evs arbitrary: st)
  case Nil
  then show ?case by simp
next
  case (Cons ev evs)
  from view_step_scale_range [OF Cons.prems, of ev]
  show ?case using Cons.IH [of "view_step st ev"] by simp
qed

text \<open>
  Claim C8. Zooming in sets the scale to \<open>min (scale * 1.5) 8\<close>. Zooming out divides the
  scale by 1.5; when the quotient is below 1.1 the scale becomes exactly 1 and the pan
  \<open>(0, 0)\<close>, otherwise the quotient is the new scale and the pan is kept; at scale 1.05
  the result is scale 1 and pan \<open>(0, 0)\<close>. Whatever sequence of gestures follows, a
  scale that lies in \<open>[1, 8]\<close> stays there, and from the initial state it always does.
\<close>

theorem zoom_step_snap_and_range:
  "scale (handleZoomIn st) = min (scale st * 1.5) 8
   \<and> (scale st / 1.5 < 1.1 \<longrightarrow>
        scale (handleZoomOut st) = 1 \<and> pan (handleZoomOut st) = (0, 0))
   \<and> (\<not> scale st / 1.5 < 1.1 \<longrightarrow>
        scale (handleZoomOut st) = scale st / 1.5 \<and> pan (handleZoomOut st) = pan st)
   \<and> (scale st = 1.05 \<longrightarrow>
        scale (handleZoomOut st) = 1 \<and> pan (handleZoomOut st) = (0, 0))
   \<and> (1 \<le> scale st \<and> scale st \<le> 8 \<longrightarrow>
        1 \<le> scale (view_run st evs) \<and> scale (view_run st evs) \<le> 8)
   \<and> 1 \<le> scale (view_run initial_view evs) \<and> scale (view_run initial_view evs) \<le> 8"
proof -
  have zin: "scale (handleZoomIn st) = min (scale st * 1.5) 8"
    by (simp add: handleZoomIn_def)
  have snap: "scale st / 1.5 < 1.1 \<longrightarrow>
      scale (handleZoomOut st) = 1 \<and> pan (handleZoomOut st) = (0, 0)"
    by (simp add: handleZoomOut_def Let_def)
  have keep: "\<not> scale st / 1.5 < 1.1 \<longrightarrow>
      scale (handleZoomOut st) = scale st / 1.5 \<and> pan (handleZoomOut st) = pan st"
    by (simp add: handleZoomOut_def Let_def)
  have near: "scale st = 1.05 \<longrightarrow>
      scale (handleZoomOut st) = 1 \<and> pan (handleZoomOut st) = (0, 0)"
    by (simp add: handleZoomOut_def Let_def)
  have inv: "1 \<le> scale st \<and> scale st \<le> 8 \<longrightarrow>
      1 \<le> scale (view_run st evs) \<and> scale (view_run st evs) \<le> 8"
    using view_run_scale_range by blast
  have "1 \<le> scale initial_view" "scale initial_view \<le> 8"
    by (simp_all add: initial_view_def)
  from view_run_scale_range [OF this, of evs]
  have init: "1 \<le> scale (view_run initial_view evs) \<and> scale (view_run initial_view evs) \<le> 8" .
  from zin snap keep near inv init show ?thesis by blast
qed

text \<open>
  Claim C8, at concrete states: scale 1.05 with a pan snaps to scale 1 and pan \<open>(0, 0)\<close>,
  scale 3 goes to 2 and keeps its pan, and six zoom-ins followed by a zoom-out leave the
  scale at \<open>16 / 3\<close>.
\<close>

theorem zoom_step_snap_and_range_witness:
  "scale near_unity = 1.05 \<and> scale near_unity / 1.5 < 1.1
   \<and> scale (handleZoomOut near_unity) = 1
   \<and> pan (handleZoomOut near_unity) = (0, 0)
   \<and> \<not> scale zoomed_3 / 1.5 < 1.1
   \<and> scale (handleZoomOut zoomed_3) = 2
   \<and> pan (handleZoomOut zoomed_3) = (7, - 3)
   \<and> 1 \<le> scale near_unity \<and> scale near_unity \<le> 8
   \<and> scale (view_run near_unity zoom_sequence) = 16 / 3
   \<and> 1 \<le> scale (view_run near_unity zoom_sequence)
   \<and> scale (view_run near_unity zoom_sequence) \<le> 8"
proof -
  have n: "scale near_unity = 1.05" "pan near_unity = (7, - 3)"
    by (simp_all add: near_unity_def initial_view_def)
  have z: "scale zoomed_3 = 3" "pan zoomed_3 = (7, - 3)"
    by (simp_all add: zoomed_3_def initial_view_def)
  have r: "scale (view_run near_unity zoom_sequence) = 16 / 3"
    by (simp add: view_run_def zoom_sequence_def near_unity_def initial_view_def
        handleZoomIn_def handleZoomOut_def Let_def)
  from zoom_step_snap_and_range [of near_unity zoom_sequence]
    zoom_step_snap_and_range [of zoomed_3 "[]"] n z r
  show ?thesis by simp
qed

section \<open>ComparisonView: slider position\<close>

lemma updateSliderPosition_pos_width:
  assumes "0 < width rect"
  shows "sliderPosition (updateSliderPosition (Some rect) x st) =
           Num (max 0 (min 100 ((x - left rect) / width rect * 100)))"
  using assms by (simp add: updateSliderPosition_def num_div_def Let_def)

lemma updateSliderPosition_between:
  assumes "case c of None \<Rightarrow> True | Some rect \<Rightarrow> 0 < width rect"
    and "num_between 0 100 (sliderPosition st)"
  shows "num_between 0 100 (sliderPosition (updateSliderPosition c x st))"
proof (cases c)
  case None
  then show ?thesis using assms(2) by (simp add: updateSliderPosition_def)
next
  case (Some rect)
  with assms(1) have "0 < width rect" by simp
  from updateSliderPosition_pos_width [OF this, of x st] Some
  show ?thesis by simp
qed

lemma view_step_slider_between:
  assumes "laid_out ev" and "num_between 0 100 (sliderPosition st)"
  shows "num_between 0 100 (sliderPosition (view_step st ev))"
proof (cases ev)
  case (ContainerMouseDown c x y)
  with assms(1) have c: "case c of None \<Rightarrow> True | Some rect \<Rightarrow> 0 < width rect"
    by (simp add: laid_out_def)
  have "num_between 0 100 (sliderPosition (st\<lparr>isResizing := True\<rparr>))"
    using assms(2) by simp
  from updateSliderPosition_between [OF c this]
  show ?thesis using ContainerMouseDown assms(2)
    by (simp add: handleContainerMouseDown_def startPanning_def startResizing_def)
next
  case (HandleMouseDown c x)
  with assms(1) have c: "case c of None \<Rightarrow> True | Some rect \<Rightarrow> 0 < width rect"
    by (simp add: laid_out_def)
  have "num_between 0 100 (sliderPosition (st\<lparr>isResizing := True\<rparr>))"
    using assms(2) by simp
  from updateSliderPosition_between [OF c this]
  show ?thesis using HandleMouseDown by (simp add: startResizing_def)
next
  case (Move c x y)
  with assms(1) have c: "case c of None \<Rightarrow> True | Some rect \<Rightarrow> 0 < width rect"
    by (simp add: laid_out_def)
  from updateSliderPosition_between [OF c assms(2)]
  show ?thesis using Move assms(2)
    by (simp add: handleMove_def split: option.split)
next
  case Up
  then show ?thesis using assms(2)
    by (simp add: handleUp_def stopResizing_def stopPanning_def Let_def)
next
  case ZoomIn
  then show ?thesis using assms(2) by (simp add: handleZoomIn_def)
next
  case ZoomOut
  then show ?thesis using assms(2) by (simp add: handleZoomOut_def Let_def)
next
  case Reset
  then show ?thesis by (simp add: handleReset_def)
qed

lemma view_run_slider_between:
  "\<forall>ev \<in> set evs. laid_out ev \<Longrightarrow> num_between 0 100 (sliderPosition st) \<Longrightarrow>
   num_between 0 100 (sliderPosition (view_run st evs))"
  unfolding view_run_def
proof (induction evs arbitrary: st)
  case Nil
  then show ?case by simp
next
  case (Cons ev evs)
  from Cons.prems have "laid_out ev" by simp
  from view_step_slider_between [OF this Cons.prems(2)]
  show ?case using Cons.IH [of "view_step st ev"] Cons.prems(1) by simp
qed

text \<open>
  Claim C9, as amended. For every pointer x-coordinate and every container of positive
  width, the recomputed slider position is the pointer's horizontal fraction across the
  container, in percent, clamped to \<open>[0, 100]\<close>: exactly 100 at or beyond the right
  edge, exactly 0 at or beyond the left edge. A slider position in \<open>[0, 100]\<close> stays
  there after every sequence of gestures whose containers have positive width.
\<close>

theorem slider_position_clamped:
  assumes "0 < width rect"
  shows "sliderPosition (updateSliderPosition (Some rect) x st) =
           Num (max 0 (min 100 ((x - left rect) / width rect * 100)))
       \<and> num_between 0 100 (sliderPosition (updateSliderPosition (Some rect) x st))
       \<and> (left rect + width rect \<le> x \<longrightarrow>
            sliderPosition (updateSliderPosition (Some rect) x st) = Num 100)
       \<and> (x \<le> left rect \<longrightarrow>
            sliderPosition (updateSliderPosition (Some rect) x st) = Num 0)
       \<and> ((\<forall>ev \<in> set evs. laid_out ev) \<and> num_between 0 100 (sliderPosition st) \<longrightarrow>
            num_between 0 100 (sliderPosition (view_run st evs)))"
proof -
  let ?p = "sliderPosition (updateSliderPosition (Some rect) x st)"
  define q where "q = (x - left rect) / width rect"
  define f where "f = q * 100"
  have eq: "?p = Num (max 0 (min 100 f))"
    unfolding f_def q_def by (rule updateSliderPosition_pos_width [OF assms])
  have rng: "num_between 0 100 ?p" by (simp add: eq)
  have right: "left rect + width rect \<le> x \<longrightarrow> ?p = Num 100"
  proof
    assume "left rect + width rect \<le> x"
    then have "width rect \<le> x - left rect" by simp
    then have "1 \<le> q"
      unfolding q_def using assms by (simp add: le_divide_eq)
    then have "100 \<le> f" unfolding f_def by simp
    then show "?p = Num 100" unfolding eq by simp
  qed
  have leftmost: "x \<le> left rect \<longrightarrow> ?p = Num 0"
  proof
    assume "x \<le> left rect"
    then have "q \<le> 0"
      unfolding q_def using assms by (simp add: divide_le_0_iff)
    then have "f \<le> 0" unfolding f_def by (simp add: mult_le_0_iff)
    then show "?p = Num 0" unfolding eq by simp
  qed
  have inv: "(\<forall>ev \<in> set evs. laid_out ev) \<and> num_between 0 100 (sliderPosition st) \<longrightarrow>
      num_between 0 100 (sliderPosition (view_run st evs))"
    using view_run_slider_between by blast
  from eq rng right leftmost inv show ?thesis unfolding f_def q_def by blast
qed

text \<open>
  Claim C9, as amended, at a container 400 wide whose left edge is at 20: the pointer at
  120 gives 25, at the right edge 420 gives 100, at the left edge 20 gives 0, and a
  sequence of drags, one of them far beyond the right edge, keeps the position in range.
\<close>

theorem slider_position_clamped_witness:
  "(0::rat) < width container_400
   \<and> sliderPosition (updateSliderPosition (Some container_400) 120 initial_view) = Num 25
   \<and> left container_400 + width container_400 \<le> 420
   \<and> sliderPosition (updateSliderPosition (Some container_400) 420 initial_view) = Num 100
   \<and> 20 \<le> left container_400
   \<and> sliderPosition (updateSliderPosition (Some container_400) 20 initial_view) = Num 0
   \<and> list_all laid_out drag_sequence
   \<and> num_between 0 100 (sliderPosition initial_view)
   \<and> num_between 0 100 (sliderPosition (view_run initial_view drag_sequence))"
proof -
  have w: "(0::rat) < width container_400" by (simp add: container_400_def)
  have g: "left container_400 = 20" "width container_400 = 400"
    by (simp_all add: container_400_def)
  have l: "\<forall>ev \<in> set drag_sequence. laid_out ev"
    by (simp add: drag_sequence_def laid_out_def container_400_def)
  have i: "num_between 0 100 (sliderPosition initial_view)"
    by (simp add: initial_view_def)
  show ?thesis
    using w l i
      slider_position_clamped [OF w, of 120 initial_view drag_sequence]
      slider_position_clamped [OF w, of 420 initial_view "[]"]
      slider_position_clamped [OF w, of 20 initial_view "[]"]
    by (simp add: g list_all_iff)
qed

text \<open>
  Claim C9 as stated, for every container geometry, fails at a container of width zero
  with the pointer on its left edge: the fraction is \<open>0 / 0\<close>, which neither
  \<^verbatim>\<open>Math.min\<close> nor \<^verbatim>\<open>Math.max\<close> brings back into \<open>[0, 100]\<close>.
\<close>

theorem slider_zero_width_counterexample:
  "sliderPosition (updateSliderPosition (Some collapsed_container) 0 initial_view) = NaN
   \<and> \<not> num_between 0 100
         (sliderPosition (updateSliderPosition (Some collapsed_container) 0 initial_view))"
  by (simp add: updateSliderPosition_def num_div_def initial_view_def collapsed_container_def)

section \<open>Double-precision arithmetic: rounding is to a nearest double\<close>

lemma bit_length_bounds:
  "0 < n \<Longrightarrow> 0 < bit_length n \<and> 2 ^ (bit_length n - 1) \<le> n \<and> n < 2 ^ bit_length n"
proof (induction n rule: bit_length.induct)
  case (1 n)
  show ?case
  proof (cases "n div 2 = 0")
    case True
    with "1.prems" have n: "n = 1" by (simp add: div_eq_0_iff)
    have "bit_length n = 1" unfolding n by (simp add: bit_length.simps)
    then show ?thesis by (simp add: n)
  next
    case False
    then have pos: "0 < n div 2" by simp
    define k where "k = bit_length (n div 2)"
    from "1.IH" [OF _ pos] "1.prems"
    have k: "0 < k" "2 ^ (k - 1) \<le> n div 2" "n div 2 < 2 ^ k"
      by (simp_all add: k_def)
    have bl: "bit_length n = Suc k"
      using "1.prems" by (simp add: bit_length.simps [of n] k_def)
    from k(1) obtain j where j: "k = Suc j" by (cases k) simp_all
    from k(2) have "2 * 2 ^ j \<le> 2 * (n div 2)" by (simp add: j)
    also have "\<dots> \<le> n" by simp
    finally have lo: "2 ^ k \<le> n" by (simp add: j)
    have "n < 2 * (n div 2) + 2" by presburger
    also from k(3) have "\<dots> \<le> 2 * 2 ^ k" by simp
    finally have hi: "n < 2 ^ Suc k" by simp
    from lo hi show ?thesis by (simp add: bl)
  qed
qed

text \<open>The exponent of a positive number: \<open>2 ^ e \<le> x < 2 ^ (e + 1)\<close>.\<close>

lemma ilog2_bounds:
  assumes "0 < x"
  shows "pow2 (ilog2 x) \<le> x \<and> x < pow2 (ilog2 x + 1)"
proof (cases "1 \<le> x")
  case True
  define m where "m = nat \<lfloor>x\<rfloor>"
  from True have fl: "1 \<le> \<lfloor>x\<rfloor>" by simp
  then have m: "0 < m" "int m = \<lfloor>x\<rfloor>" by (simp_all add: m_def)
  from bit_length_bounds [OF m(1)]
  have b: "0 < bit_length m" "2 ^ (bit_length m - 1) \<le> m" "m < 2 ^ bit_length m" by simp_all
  have e: "ilog2 x = int (bit_length m) - 1" using True by (simp add: ilog2_def m_def)
  have e0: "0 \<le> int (bit_length m) - 1" using b(1) by simp
  have n1: "nat (int (bit_length m) - 1) = bit_length m - 1" by simp
  have "(of_nat (2 ^ (bit_length m - 1)) :: rat) \<le> of_nat m" using b(2) of_nat_le_iff by blast
  also have "(of_nat m :: rat) = of_int \<lfloor>x\<rfloor>" using m(2) by (metis of_int_of_nat_eq)
  also have "\<dots> \<le> x" by simp
  finally have lo: "pow2 (ilog2 x) \<le> x" using e0 by (simp add: e pow2_def n1)
  have "\<lfloor>x\<rfloor> + 1 \<le> int (2 ^ bit_length m)" using b(3) m(2) by linarith
  then have "(of_int (\<lfloor>x\<rfloor> + 1) :: rat) \<le> of_int (int (2 ^ bit_length m))"
    using of_int_le_iff by blast
  moreover have "x < of_int (\<lfloor>x\<rfloor> + 1)" by linarith
  ultimately have "x < of_int (int (2 ^ bit_length m))" by linarith
  then have hi: "x < pow2 (ilog2 x + 1)" by (simp add: e pow2_def)
  from lo hi show ?thesis by simp
next
  case False
  with assms have x: "0 < x" "x < 1" by simp_all
  define y where "y = 1 / x"
  from x have y1: "1 < y" by (simp add: y_def)
  define m where "m = nat (\<lceil>y\<rceil> - 1)"
  from y1 have c2: "2 \<le> \<lceil>y\<rceil>" by (simp add: le_ceiling_iff)
  then have m: "0 < m" "int m = \<lceil>y\<rceil> - 1" by (simp_all add: m_def)
  define k where "k = bit_length m"
  from bit_length_bounds [OF m(1)]
  have b: "0 < k" "2 ^ (k - 1) \<le> m" "m < 2 ^ k" by (simp_all add: k_def)
  have e: "ilog2 x = - int k" using False by (simp add: ilog2_def m_def y_def k_def)
  have "y \<le> of_int \<lceil>y\<rceil>" by simp
  also have "\<lceil>y\<rceil> \<le> int (2 ^ k)" using b(3) m(2) by linarith
  then have "(of_int \<lceil>y\<rceil> :: rat) \<le> of_int (int (2 ^ k))" using of_int_le_iff by blast
  finally have yk: "y \<le> 2 ^ k" by simp
  have "(of_int (int (2 ^ (k - 1))) :: rat) \<le> of_int (int m)"
    using b(2) by (metis of_int_of_nat_eq of_nat_le_iff)
  also have "(of_int (int m) :: rat) = of_int (\<lceil>y\<rceil> - 1)" using m(2) by simp
  also have "\<dots> < y" by linarith
  finally have ky: "2 ^ (k - 1) < y" by simp
  from yk x have lo: "1 / 2 ^ k \<le> x"
    by (simp add: y_def field_simps)
  from ky x have hi: "x < 1 / 2 ^ (k - 1)"
    by (simp add: y_def field_simps)
  from b(1) obtain j where j: "k = Suc j" by (cases k) simp_all
  have p1: "pow2 (- int k) = 1 / 2 ^ k" using b(1) by (simp add: pow2_def)
  have p2: "pow2 (- int k + 1) = 1 / 2 ^ (k - 1)"
    by (cases j) (simp_all add: pow2_def j nat_add_distrib)
  have s: "ilog2 x + 1 = - int k + 1" by (simp add: e)
  from lo have "pow2 (ilog2 x) \<le> x" by (simp only: e p1)
  moreover from hi have "x < pow2 (ilog2 x + 1)" by (simp only: s p2)
  ultimately show ?thesis by simp
qed

lemma pow2_pos: "0 < pow2 e"
  by (simp add: pow2_def)

lemma round_half_even_nearest: "\<bar>of_int (round_half_even x) - x\<bar> \<le> 1 / 2"
proof -
  have "of_int \<lfloor>x\<rfloor> \<le> x" "x < of_int \<lfloor>x\<rfloor> + 1" by linarith+
  then show ?thesis by (auto simp: round_half_even_def abs_le_iff)
qed

text \<open>A finite result lies within half a spacing of the exact value.\<close>

lemma round_double_nearest:
  assumes "round_double x = Num y"
  shows "\<bar>y - x\<bar> \<le> pow2 (max (ilog2 \<bar>x\<bar>) (- 1022) - 52) / 2"
proof (cases "x = 0")
  case True
  with assms show ?thesis by (simp add: round_double_def less_imp_le [OF pow2_pos])
next
  case False
  define q where "q = pow2 (max (ilog2 \<bar>x\<bar>) (- 1022) - 52)"
  have q: "0 < q" unfolding q_def by (rule pow2_pos)
  from assms False have y: "y = of_int (round_half_even (x / q)) * q"
    by (simp add: round_double_def Let_def q_def split: if_splits)
  have "y - x = (of_int (round_half_even (x / q)) - x / q) * q"
    using q by (simp add: y field_simps)
  then have "\<bar>y - x\<bar> = \<bar>of_int (round_half_even (x / q)) - x / q\<bar> * q"
    using q by (simp add: abs_mult)
  also have "\<dots> \<le> 1 / 2 * q"
    using round_half_even_nearest [of "x / q"] q by (simp add: mult_right_mono)
  finally show ?thesis by (simp add: q_def)
qed

section \<open>Double-precision arithmetic: evaluation\<close>

lemma floor_rat_numeral:
  "\<lfloor>(numeral a :: rat) / numeral b\<rfloor> = numeral a div numeral b"
  using floor_divide_of_int_eq [of "numeral a" "numeral b", where ?'a = rat] by simp

lemma floor_rat_neg_numeral:
  "\<lfloor>- ((numeral a :: rat) / numeral b)\<rfloor> = - numeral a div numeral b"
  using floor_divide_of_int_eq [of "- numeral a" "numeral b", where ?'a = rat] by simp

lemma ceiling_rat_numeral:
  "\<lceil>(numeral a :: rat) / numeral b\<rceil> = - (- numeral a div numeral b)"
  unfolding ceiling_def using floor_rat_neg_numeral [of a b] by simp

lemmas floor_rat_eval = floor_rat_numeral floor_rat_neg_numeral ceiling_rat_numeral

text \<open>
  A rounding is evaluated in three steps: the exponent, the rounded mantissa, the range.
\<close>

lemma round_double_eval:
  assumes "x \<noteq> 0" and "ilog2 \<bar>x\<bar> = e" and "- 1022 \<le> e"
    and "round_half_even (x / pow2 (e - 52)) = n"
    and "\<bar>of_int n * pow2 (e - 52)\<bar> < pow2 1024"
  shows "round_double x = Num (of_int n * pow2 (e - 52))"
  using assms by (simp add: round_double_def Let_def max_def)


lemma reduce_supported:
  "reduce f supported =
     Some (f (f (f (f (supported ! 0) (supported ! Suc 0)) (supported ! 2)) (supported ! 3))
             (supported ! 4))"
  by (simp add: supported_def)

text \<open>The five values of the table, as doubles, and the sides of the example images.\<close>

lemma round_double_supported_0: "round_double (1) = Num (1)"
proof -
  have nz: "(1 :: rat) \<noteq> 0" by simp
  have e: "ilog2 \<bar>1\<bar> = 0"
    by (simp add: ilog2_def bit_length.simps floor_rat_eval split del: if_split)
  have m: "- 1022 \<le> (0 :: int)" by simp
  have n: "round_half_even (1 / pow2 (0 - 52)) = 4503599627370496"
    by (simp add: round_half_even_def pow2_def Let_def floor_rat_eval)
  have b: "\<bar>rat_of_int (4503599627370496) * pow2 (0 - 52)\<bar> < pow2 1024" by (simp add: pow2_def)
  from round_double_eval [OF nz e m n b] show ?thesis by (simp add: pow2_def)
qed

lemma round_double_supported_1: "round_double (3 / 4) = Num (3 / 4)"
proof -
  have nz: "(3 / 4 :: rat) \<noteq> 0" by simp
  have e: "ilog2 \<bar>3 / 4\<bar> = - 1"
    by (simp add: ilog2_def bit_length.simps floor_rat_eval split del: if_split)
  have m: "- 1022 \<le> (- 1 :: int)" by simp
  have n: "round_half_even (3 / 4 / pow2 (- 1 - 52)) = 6755399441055744"
    by (simp add: round_half_even_def pow2_def Let_def floor_rat_eval)
  have b: "\<bar>rat_of_int (6755399441055744) * pow2 (- 1 - 52)\<bar> < pow2 1024" by (simp add: pow2_def)
  from round_double_eval [OF nz e m n b] show ?thesis by (simp add: pow2_def)
qed

lemma round_double_supported_2: "round_double (13333 / 10000) = Num (3002324691586541 / 2251799813685248)"
proof -
  have nz: "(13333 / 10000 :: rat) \<noteq> 0" by simp
  have e: "ilog2 \<bar>13333 / 10000\<bar> = 0"
    by (simp add: ilog2_def bit_length.simps floor_rat_eval split del: if_split)
  have m: "- 1022 \<le> (0 :: int)" by simp
  have n: "round_half_even (13333 / 10000 / pow2 (0 - 52)) = 6004649383173082"
    by (simp add: round_half_even_def pow2_def Let_def floor_rat_eval)
  have b: "\<bar>rat_of_int (6004649383173082) * pow2 (0 - 52)\<bar> < pow2 1024" by (simp add: pow2_def)
  from round_double_eval [OF nz e m n b] show ?thesis by (simp add: pow2_def)
qed

lemma round_double_supported_3: "round_double (9 / 16) = Num (9 / 16)"
proof -
  have nz: "(9 / 16 :: rat) \<noteq> 0" by simp
  have e: "ilog2 \<bar>9 / 16\<bar> = - 1"
    by (simp add: ilog2_def bit_length.simps floor_rat_eval split del: if_split)
  have m: "- 1022 \<le> (- 1 :: int)" by simp
  have n: "round_half_even (9 / 16 / pow2 (- 1 - 52)) = 5066549580791808"
    by (simp add: round_half_even_def pow2_def Let_def floor_rat_eval)
  have b: "\<bar>rat_of_int (5066549580791808) * pow2 (- 1 - 52)\<bar> < pow2 1024" by (simp add: pow2_def)
  from round_double_eval [OF nz e m n b] show ?thesis by (simp add: pow2_def)
qed

lemma round_double_supported_4: "round_double (8889 / 5000) = Num (2001624854384817 / 1125899906842624)"
proof -
  have nz: "(8889 / 5000 :: rat) \<noteq> 0" by simp
  have e: "ilog2 \<bar>8889 / 5000\<bar> = 0"
    by (simp add: ilog2_def bit_length.simps floor_rat_eval split del: if_split)
  have m: "- 1022 \<le> (0 :: int)" by simp
  have n: "round_half_even (8889 / 5000 / pow2 (0 - 52)) = 8006499417539268"
    by (simp add: round_half_even_def pow2_def Let_def floor_rat_eval)
  have b: "\<bar>rat_of_int (8006499417539268) * pow2 (0 - 52)\<bar> < pow2 1024" by (simp add: pow2_def)
  from round_double_eval [OF nz e m n b] show ?thesis by (simp add: pow2_def)
qed

















lemma round_double_ratio_1000_1000: "round_double (1) = Num (1)"
proof -
  have nz: "(1 :: rat) \<noteq> 0" by simp
  have e: "ilog2 \<bar>1\<bar> = 0"
    by (simp add: ilog2_def bit_length.simps floor_rat_eval split del: if_split)
  have m: "- 1022 \<le> (0 :: int)" by simp
  have n: "round_half_even (1 / pow2 (0 - 52)) = 4503599627370496"
    by (simp add: round_half_even_def pow2_def Let_def floor_rat_eval)
  have b: "\<bar>rat_of_int (4503599627370496) * pow2 (0 - 52)\<bar> < pow2 1024" by (simp add: pow2_def)
  from round_double_eval [OF nz e m n b] show ?thesis by (simp add: pow2_def)
qed

lemma fl_div_1000_1000: "fl_div 1000 1000 = Num (1)"
proof -
  have "fl_div 1000 1000 = round_double (1)" by (simp add: fl_div_def)
  then show ?thesis by (simp only: round_double_ratio_1000_1000)
qed

lemma round_double_diff_1000_1000_0: "round_double 0 = Num 0"
  by (simp add: round_double_def)

lemma computed_distance_1000_1000_0:
  "computed_distance (fl_div 1000 1000) (supported ! 0) = Num (0)"
proof -
  have "fl_sub (round_double (snd (supported ! 0))) (Num (1)) = round_double (0)"
    by (simp add: supported_def round_double_supported_0)
  then show ?thesis
    by (simp add: computed_distance_def fl_div_1000_1000 round_double_diff_1000_1000_0)
qed

lemma round_double_diff_1000_1000_1: "round_double (- (1 / 4)) = Num (- (1 / 4))"
proof -
  have nz: "(- (1 / 4) :: rat) \<noteq> 0" by simp
  have e: "ilog2 \<bar>- (1 / 4)\<bar> = - 2"
    by (simp add: ilog2_def bit_length.simps floor_rat_eval split del: if_split)
  have m: "- 1022 \<le> (- 2 :: int)" by simp
  have n: "round_half_even (- (1 / 4) / pow2 (- 2 - 52)) = - 4503599627370496"
    by (simp add: round_half_even_def pow2_def Let_def floor_rat_eval)
  have b: "\<bar>rat_of_int (- 4503599627370496) * pow2 (- 2 - 52)\<bar> < pow2 1024" by (simp add: pow2_def)
  from round_double_eval [OF nz e m n b] show ?thesis by (simp add: pow2_def)
qed

lemma computed_distance_1000_1000_1:
  "computed_distance (fl_div 1000 1000) (supported ! Suc 0) = Num (1 / 4)"
proof -
  have "fl_sub (round_double (snd (supported ! Suc 0))) (Num (1)) = round_double (- (1 / 4))"
    by (simp add: supported_def round_double_supported_1)
  then show ?thesis
    by (simp add: computed_distance_def fl_div_1000_1000 round_double_diff_1000_1000_1)
qed

lemma round_double_diff_1000_1000_2: "round_double (750524877901293 / 2251799813685248) = Num (750524877901293 / 2251799813685248)"
proof -
  have nz: "(750524877901293 / 2251799813685248 :: rat) \<noteq> 0" by simp
  have e: "ilog2 \<bar>750524877901293 / 2251799813685248\<bar> = - 2"
    by (simp add: ilog2_def bit_length.simps floor_rat_eval split del: if_split)
  have m: "- 1022 \<le> (- 2 :: int)" by simp
  have n: "round_half_even (750524877901293 / 2251799813685248 / pow2 (- 2 - 52)) = 6004199023210344"
    by (simp add: round_half_even_def pow2_def Let_def floor_rat_eval)
  have b: "\<bar>rat_of_int (6004199023210344) * pow2 (- 2 - 52)\<bar> < pow2 1024" by (simp add: pow2_def)
  from round_double_eval [OF nz e m n b] show ?thesis by (simp add: pow2_def)
qed

lemma computed_distance_1000_1000_2:
  "computed_distance (fl_div 1000 1000) (supported ! 2) = Num (750524877901293 / 2251799813685248)"
proof -
  have "fl_sub (round_double (snd (supported ! 2))) (Num (1)) = round_double (750524877901293 / 2251799813685248)"
    by (simp add: supported_def round_double_supported_2)
  then show ?thesis
    by (simp add: computed_distance_def fl_div_1000_1000 round_double_diff_1000_1000_2)
qed

lemma round_double_diff_1000_1000_3: "round_double (- (7 / 16)) = Num (- (7 / 16))"
proof -
  have nz: "(- (7 / 16) :: rat) \<noteq> 0" by simp
  have e: "ilog2 \<bar>- (7 / 16)\<bar> = - 2"
    by (simp add: ilog2_def bit_length.simps floor_rat_eval split del: if_split)
  have m: "- 1022 \<le> (- 2 :: int)" by simp
  have n: "round_half_even (- (7 / 16) / pow2 (- 2 - 52)) = - 7881299347898368"
    by (simp add: round_half_even_def pow2_def Let_def floor_rat_eval)
  have b: "\<bar>rat_of_int (- 7881299347898368) * pow2 (- 2 - 52)\<bar> < pow2 1024" by (simp add: pow2_def)
  from round_double_eval [OF nz e m n b] show ?thesis by (simp add: pow2_def)
qed

lemma computed_distance_1000_1000_3:
  "computed_distance (fl_div 1000 1000) (supported ! 3) = Num (7 / 16)"
proof -
  have "fl_sub (round_double (snd (supported ! 3))) (Num (1)) = round_double (- (7 / 16))"
    by (simp add: supported_def round_double_supported_3)
  then show ?thesis
    by (simp add: computed_distance_def fl_div_1000_1000 round_double_diff_1000_1000_3)
qed

lemma round_double_diff_1000_1000_4: "round_double (875724947542193 / 1125899906842624) = Num (875724947542193 / 1125899906842624)"
proof -
  have nz: "(875724947542193 / 1125899906842624 :: rat) \<noteq> 0" by simp
  have e: "ilog2 \<bar>875724947542193 / 1125899906842624\<bar> = - 1"
    by (simp add: ilog2_def bit_length.simps floor_rat_eval split del: if_split)
  have m: "- 1022 \<le> (- 1 :: int)" by simp
  have n: "round_half_even (875724947542193 / 1125899906842624 / pow2 (- 1 - 52)) = 7005799580337544"
    by (simp add: round_half_even_def pow2_def Let_def floor_rat_eval)
  have b: "\<bar>rat_of_int (7005799580337544) * pow2 (- 1 - 52)\<bar> < pow2 1024" by (simp add: pow2_def)
  from round_double_eval [OF nz e m n b] show ?thesis by (simp add: pow2_def)
qed

lemma computed_distance_1000_1000_4:
  "computed_distance (fl_div 1000 1000) (supported ! 4) = Num (875724947542193 / 1125899906842624)"
proof -
  have "fl_sub (round_double (snd (supported ! 4))) (Num (1)) = round_double (875724947542193 / 1125899906842624)"
    by (simp add: supported_def round_double_supported_4)
  then show ?thesis
    by (simp add: computed_distance_def fl_div_1000_1000 round_double_diff_1000_1000_4)
qed

lemma fallback_1000_1000:
  "map_option fst (reduce (closer (fl_div 1000 1000)) supported) = Some ''1:1''"
proof -
  have "reduce (closer (fl_div 1000 1000)) supported = Some (supported ! 0)"
    unfolding reduce_supported
    by (simp add: closer_def computed_distance_1000_1000_0 computed_distance_1000_1000_1
        computed_distance_1000_1000_2 computed_distance_1000_1000_3 computed_distance_1000_1000_4)
  then show ?thesis by (simp add: supported_def)
qed














section \<open>getBestAspectRatio: the closest supported ratio\<close>


















section \<open>getBestAspectRatio: explicit ratio in the instructions\<close>

lemma combined_crop_for_mobile: "combinedEdits crop_for_mobile = ''crop to 9:16 for mobile''"
  by (simp add: combinedEdits_def crop_for_mobile_def toLowerCase_def toLowerCase_char_def)

text \<open>
  Claim C3, as amended. For every width, height and instruction list, when the
  lower-cased instructions joined by single spaces contain one of the tokens 16:9, 9:16,
  4:3, 3:4, 1:1, square, the function returns the ratio of the first token, in that
  order, that occurs in the joined text (1:1 for square), whatever the width and height.
\<close>

theorem getBestAspectRatio_keyword_override:
  assumes "\<exists>k \<in> set ratio_keywords. includes_str (combinedEdits edits) k"
  shows "getBestAspectRatio w h edits =
           map_option keyword_ratio
             (find (includes_str (combinedEdits edits)) ratio_keywords)"
  using assms
  by (auto simp: getBestAspectRatio_def ratio_keywords_def keyword_ratio_def)

text \<open>
  Claim C3, as amended, at the specification's input: 1920 by 1080 with the instruction
  to crop to 9:16 for mobile gives 9:16.
\<close>

theorem getBestAspectRatio_keyword_override_witness:
  "(\<exists>k \<in> set ratio_keywords. includes_str (combinedEdits crop_for_mobile) k)
   \<and> find (includes_str (combinedEdits crop_for_mobile)) ratio_keywords = Some ''9:16''
   \<and> getBestAspectRatio 1920 1080 crop_for_mobile = Some ''9:16''"
proof -
  have f: "find (includes_str (combinedEdits crop_for_mobile)) ratio_keywords = Some ''9:16''"
    unfolding combined_crop_for_mobile
    by (simp add: ratio_keywords_def includes_str_def sublist_Cons_right)
  have i: "includes_str (combinedEdits crop_for_mobile) ''9:16''"
    unfolding combined_crop_for_mobile
    by (simp add: includes_str_def sublist_Cons_right)
  have h: "\<exists>k \<in> set ratio_keywords. includes_str (combinedEdits crop_for_mobile) k"
    using i by (auto simp: ratio_keywords_def)
  from getBestAspectRatio_keyword_override [OF h, of 1920 1080] f h
  show ?thesis by (simp add: keyword_ratio_def)
qed

text \<open>
  Claim C3 as stated, on the concatenation of the instructions, fails when a token is
  split over two instructions: the concatenation of the two instructions contains 16:9,
  the text the function scans has a space inside it, and a square image gets 1:1.
\<close>

theorem keyword_concatenation_counterexample:
  "includes_str (concatenatedEdits split_token) ''16:9''
   \<and> getBestAspectRatio 1000 1000 split_token = Some ''1:1''
   \<and> getBestAspectRatio 1000 1000 split_token \<noteq> Some ''16:9''"
proof -
  have c: "concatenatedEdits split_token = ''crop to 16:9 frame''"
    by (simp add: concatenatedEdits_def split_token_def toLowerCase_def toLowerCase_char_def)
  have j: "combinedEdits split_token = ''crop to 16: 9 frame''"
    by (simp add: combinedEdits_def split_token_def toLowerCase_def toLowerCase_char_def)
  have a: "includes_str (concatenatedEdits split_token) ''16:9''"
    unfolding c by (simp add: includes_str_def sublist_Cons_right)
  have b: "getBestAspectRatio 1000 1000 split_token = Some ''1:1''"
    unfolding getBestAspectRatio_def j
    by (simp add: includes_str_def sublist_Cons_right fallback_1000_1000)
  from a b show ?thesis by simp
qed

section \<open>analyzeImage: what the type validation accepts and how it fails\<close>

text \<open>The tests of the source are the shape the specification describes.\<close>

lemma typeof_number_iff: "typeof v = ''number'' \<longleftrightarrow> is_numeric v"
  by (cases v rule: typeof.cases) simp_all

lemma typeof_string_iff: "typeof v = ''string'' \<longleftrightarrow> is_text v"
  by (cases v rule: typeof.cases) simp_all

lemma isArray_iff: "isArray v \<longleftrightarrow> is_sequence v"
  by (cases v rule: isArray.cases) simp_all

lemma typeValidation_object:
  "typeValidation (JObject props) =
     (if well_shaped props then Inr (JObject props) else Inl (Error structure_message))"
  unfolding typeValidation_def well_shaped_def Let_def
    typeof_number_iff typeof_string_iff isArray_iff
  by simp

lemma typeValidation_plain_object:
  "typeValidation_plain (JObject props) =
     (if well_shaped_plain props then Inr (JObject props)
      else Inl (Error structure_message))"
  unfolding typeValidation_plain_def well_shaped_plain_def Let_def
    typeof_number_iff typeof_string_iff isArray_iff
  by simp

lemma typeValidation_cases:
  "typeValidation raw =
     (if raw = JNull then Inl (TypeError (null_property_message ''rating''))
      else if shape_ok raw then Inr raw
      else Inl (Error structure_message))"
proof (cases raw)
  case (JObject props)
  then show ?thesis by (simp add: typeValidation_object)
qed (simp_all add: typeValidation_def Let_def)

lemma typeValidation_plain_cases:
  "typeValidation_plain raw =
     (if raw = JNull then Inl (TypeError (null_property_message ''rating''))
      else if shape_ok_plain raw then Inr raw
      else Inl (Error structure_message))"
proof (cases raw)
  case (JObject props)
  then show ?thesis by (simp add: typeValidation_plain_object)
qed (simp_all add: typeValidation_plain_def Let_def)

lemma messages_name_no_field:
  "\<forall>name \<in> set field_names.
     \<not> includes_str structure_message name \<and> \<not> includes_str analysis_failed_message name"
  by (simp add: field_names_def includes_str_def structure_message_def
      analysis_failed_message_def sublist_Cons_right)

lemma analyzeImage_cases:
  "analyzeImage True (Inr raw) =
     (if shape_ok raw then Inr raw else Inl (Error analysis_failed_message))"
  by (simp add: analyzeImage_def typeValidation_cases)

lemma analyzeImage_plain_cases:
  "analyzeImage_plain True (Inr raw) =
     (if shape_ok_plain raw then Inr raw else Inl (Error analysis_failed_message))"
  by (simp add: analyzeImage_plain_def typeValidation_plain_cases)

lemma missing_edits_not_shaped:
  "map_of props ''suggested_edits'' = None \<Longrightarrow>
   \<not> shape_ok (JObject props) \<and> \<not> shape_ok_plain (JObject props)"
  by (simp add: well_shaped_def well_shaped_plain_def)

lemma string_rating_not_shaped:
  "map_of props ''rating'' = Some (JString str) \<Longrightarrow>
   \<not> shape_ok (JObject props) \<and> \<not> shape_ok_plain (JObject props)"
  by (simp add: well_shaped_def well_shaped_plain_def)

text \<open>
  Claim C7. In both variants of the service, the validation and \<^verbatim>\<open>analyzeImage\<close>
  around it accept, unchanged, exactly the values of the expected shape: a numeric rating
  (and projected rating, in that variant), four commentary strings, an array of suggested
  edits. Every other value is rejected; in particular every object that lacks the
  suggested edits and every object whose rating is a string. A value of that shape is
  accepted whatever the two numbers are and however long the array is.
\<close>

theorem validation_acceptance:
  "(shape_ok raw \<longrightarrow> typeValidation raw = Inr raw \<and> analyzeImage True (Inr raw) = Inr raw)
   \<and> (\<not> shape_ok raw \<longrightarrow>
         (\<exists>e. typeValidation raw = Inl e)
         \<and> analyzeImage True (Inr raw) = Inl (Error analysis_failed_message))
   \<and> (shape_ok_plain raw \<longrightarrow>
         typeValidation_plain raw = Inr raw \<and> analyzeImage_plain True (Inr raw) = Inr raw)
   \<and> (\<not> shape_ok_plain raw \<longrightarrow>
         (\<exists>e. typeValidation_plain raw = Inl e)
         \<and> analyzeImage_plain True (Inr raw) = Inl (Error analysis_failed_message))
   \<and> (map_of props ''suggested_edits'' = None \<longrightarrow>
         typeValidation (JObject props) = Inl (Error structure_message)
         \<and> analyzeImage True (Inr (JObject props)) = Inl (Error analysis_failed_message)
         \<and> typeValidation_plain (JObject props) = Inl (Error structure_message)
         \<and> analyzeImage_plain True (Inr (JObject props)) = Inl (Error analysis_failed_message))
   \<and> (map_of props ''rating'' = Some (JString str) \<longrightarrow>
         typeValidation (JObject props) = Inl (Error structure_message)
         \<and> analyzeImage True (Inr (JObject props)) = Inl (Error analysis_failed_message)
         \<and> typeValidation_plain (JObject props) = Inl (Error structure_message)
         \<and> analyzeImage_plain True (Inr (JObject props)) = Inl (Error analysis_failed_message))
   \<and> typeValidation
        (JObject [(''rating'', JNumber r), (''projected_rating'', JNumber p),
                  (''composition'', JString c), (''lighting'', JString l),
                  (''subject'', JString sb), (''overall_comment'', JString oc),
                  (''suggested_edits'', JArray edits)])
       = Inr (JObject [(''rating'', JNumber r), (''projected_rating'', JNumber p),
                  (''composition'', JString c), (''lighting'', JString l),
                  (''subject'', JString sb), (''overall_comment'', JString oc),
                  (''suggested_edits'', JArray edits)])
   \<and> typeValidation_plain
        (JObject [(''rating'', JNumber r), (''composition'', JString c),
                  (''lighting'', JString l), (''subject'', JString sb),
                  (''overall_comment'', JString oc), (''suggested_edits'', JArray edits)])
       = Inr (JObject [(''rating'', JNumber r), (''composition'', JString c),
                  (''lighting'', JString l), (''subject'', JString sb),
                  (''overall_comment'', JString oc), (''suggested_edits'', JArray edits)])"
proof -
  have a: "shape_ok raw \<longrightarrow> typeValidation raw = Inr raw \<and> analyzeImage True (Inr raw) = Inr raw"
    by (auto simp: typeValidation_cases analyzeImage_cases)
  have b: "\<not> shape_ok raw \<longrightarrow>
      (\<exists>e. typeValidation raw = Inl e)
      \<and> analyzeImage True (Inr raw) = Inl (Error analysis_failed_message)"
    by (simp add: typeValidation_cases analyzeImage_cases)
  have c: "shape_ok_plain raw \<longrightarrow>
      typeValidation_plain raw = Inr raw \<and> analyzeImage_plain True (Inr raw) = Inr raw"
    by (auto simp: typeValidation_plain_cases analyzeImage_plain_cases)
  have d: "\<not> shape_ok_plain raw \<longrightarrow>
      (\<exists>e. typeValidation_plain raw = Inl e)
      \<and> analyzeImage_plain True (Inr raw) = Inl (Error analysis_failed_message)"
    by (simp add: typeValidation_plain_cases analyzeImage_plain_cases)
  have e: "map_of props ''suggested_edits'' = None \<longrightarrow>
      typeValidation (JObject props) = Inl (Error structure_message)
      \<and> analyzeImage True (Inr (JObject props)) = Inl (Error analysis_failed_message)
      \<and> typeValidation_plain (JObject props) = Inl (Error structure_message)
      \<and> analyzeImage_plain True (Inr (JObject props)) = Inl (Error analysis_failed_message)"
    using missing_edits_not_shaped [of props]
    by (simp add: typeValidation_cases typeValidation_plain_cases analyzeImage_cases
        analyzeImage_plain_cases)
  have f: "map_of props ''rating'' = Some (JString str) \<longrightarrow>
      typeValidation (JObject props) = Inl (Error structure_message)
      \<and> analyzeImage True (Inr (JObject props)) = Inl (Error analysis_failed_message)
      \<and> typeValidation_plain (JObject props) = Inl (Error structure_message)
      \<and> analyzeImage_plain True (Inr (JObject props)) = Inl (Error analysis_failed_message)"
    using string_rating_not_shaped [of props str]
    by (simp add: typeValidation_cases typeValidation_plain_cases analyzeImage_cases
        analyzeImage_plain_cases)
  have g: "typeValidation
        (JObject [(''rating'', JNumber r), (''projected_rating'', JNumber p),
                  (''composition'', JString c), (''lighting'', JString l),
                  (''subject'', JString sb), (''overall_comment'', JString oc),
                  (''suggested_edits'', JArray edits)])
       = Inr (JObject [(''rating'', JNumber r), (''projected_rating'', JNumber p),
                  (''composition'', JString c), (''lighting'', JString l),
                  (''subject'', JString sb), (''overall_comment'', JString oc),
                  (''suggested_edits'', JArray edits)])"
    by (simp add: typeValidation_object well_shaped_def)
  have h: "typeValidation_plain
        (JObject [(''rating'', JNumber r), (''composition'', JString c),
                  (''lighting'', JString l), (''subject'', JString sb),
                  (''overall_comment'', JString oc), (''suggested_edits'', JArray edits)])
       = Inr (JObject [(''rating'', JNumber r), (''composition'', JString c),
                  (''lighting'', JString l), (''subject'', JString sb),
                  (''overall_comment'', JString oc), (''suggested_edits'', JArray edits)])"
    by (simp add: typeValidation_plain_object well_shaped_plain_def)
  from a b c d e f g h show ?thesis by blast
qed

text \<open>
  Claim C7, at concrete responses: a well-formed response with three edits is accepted by
  both variants, and so is one with rating 42, projected rating -3 and no edit at all; a
  response without the suggested edits and one whose rating is a string are rejected by
  both.
\<close>

theorem validation_acceptance_witness:
  "shape_ok example_analysis \<and> shape_ok_plain example_analysis
   \<and> typeValidation example_analysis = Inr example_analysis
   \<and> typeValidation_plain example_analysis = Inr example_analysis
   \<and> shape_ok odd_but_accepted
   \<and> analyzeImage True (Inr odd_but_accepted) = Inr odd_but_accepted
   \<and> analyzeImage_plain True (Inr odd_but_accepted) = Inr odd_but_accepted
   \<and> \<not> shape_ok missing_edits \<and> \<not> shape_ok_plain missing_edits
   \<and> (\<exists>props. missing_edits = JObject props \<and> map_of props ''suggested_edits'' = None)
   \<and> typeValidation missing_edits = Inl (Error structure_message)
   \<and> typeValidation_plain missing_edits = Inl (Error structure_message)
   \<and> analyzeImage True (Inr missing_edits) = Inl (Error analysis_failed_message)
   \<and> analyzeImage_plain True (Inr missing_edits) = Inl (Error analysis_failed_message)
   \<and> (\<exists>props. rating_as_string = JObject props
         \<and> map_of props ''rating'' = Some (JString ''7''))
   \<and> typeValidation rating_as_string = Inl (Error structure_message)
   \<and> typeValidation_plain rating_as_string = Inl (Error structure_message)
   \<and> analyzeImage True (Inr rating_as_string) = Inl (Error analysis_failed_message)
   \<and> analyzeImage_plain True (Inr rating_as_string) = Inl (Error analysis_failed_message)"
proof -
  have e: "shape_ok example_analysis" "shape_ok_plain example_analysis"
    "shape_ok odd_but_accepted" "shape_ok_plain odd_but_accepted"
    by (simp_all add: example_analysis_def odd_but_accepted_def well_shaped_def
        well_shaped_plain_def)
  have n: "\<not> shape_ok missing_edits" "\<not> shape_ok_plain missing_edits"
    by (simp_all add: missing_edits_def well_shaped_def well_shaped_plain_def)
  obtain mp where mp: "missing_edits = JObject mp" "map_of mp ''suggested_edits'' = None"
    by (simp add: missing_edits_def)
  obtain rp where rp: "rating_as_string = JObject rp"
    "map_of rp ''rating'' = Some (JString ''7'')"
    by (simp add: rating_as_string_def)
  from validation_acceptance [of example_analysis mp]
    validation_acceptance [of odd_but_accepted rp "''7''"]
    validation_acceptance [of missing_edits mp] e n mp rp
  show ?thesis by auto
qed

text \<open>
  Claim C6, as amended. Every value other than \<^verbatim>\<open>null\<close> that violates one of the shape
  checks makes the validation throw one and the same error, whichever check it violates,
  and \<^verbatim>\<open>analyzeImage\<close> reports every violation by one and the same error; the message
  of neither contains the name of a field.
\<close>

theorem validation_failure_uniform:
  "(\<not> shape_ok raw \<and> raw \<noteq> JNull \<longrightarrow> typeValidation raw = Inl (Error structure_message))
   \<and> (\<not> shape_ok raw \<longrightarrow> analyzeImage True (Inr raw) = Inl (Error analysis_failed_message))
   \<and> (\<not> shape_ok_plain raw \<and> raw \<noteq> JNull \<longrightarrow>
         typeValidation_plain raw = Inl (Error structure_message))
   \<and> (\<forall>name \<in> set field_names.
         \<not> includes_str structure_message name
         \<and> \<not> includes_str analysis_failed_message name)"
proof -
  have a: "\<not> shape_ok raw \<and> raw \<noteq> JNull \<longrightarrow> typeValidation raw = Inl (Error structure_message)"
    by (simp add: typeValidation_cases)
  have b: "\<not> shape_ok raw \<longrightarrow> analyzeImage True (Inr raw) = Inl (Error analysis_failed_message)"
    by (simp add: analyzeImage_def typeValidation_cases)
  have c: "\<not> shape_ok_plain raw \<and> raw \<noteq> JNull \<longrightarrow>
      typeValidation_plain raw = Inl (Error structure_message)"
    by (simp add: typeValidation_plain_cases)
  from a b c messages_name_no_field show ?thesis by blast
qed

text \<open>
  Claim C6, as amended, at a response whose rating is a string and at one that lacks the
  suggested edits.
\<close>

theorem validation_failure_uniform_witness:
  "\<not> shape_ok rating_as_string \<and> rating_as_string \<noteq> JNull
   \<and> typeValidation rating_as_string = Inl (Error structure_message)
   \<and> analyzeImage True (Inr rating_as_string) = Inl (Error analysis_failed_message)
   \<and> \<not> shape_ok_plain missing_edits \<and> missing_edits \<noteq> JNull
   \<and> typeValidation_plain missing_edits = Inl (Error structure_message)
   \<and> ''rating'' \<in> set field_names
   \<and> \<not> includes_str structure_message ''rating''
   \<and> \<not> includes_str analysis_failed_message ''rating''"
proof -
  have r: "\<not> shape_ok rating_as_string" "rating_as_string \<noteq> JNull"
    by (simp_all add: rating_as_string_def well_shaped_def)
  have m: "\<not> shape_ok_plain missing_edits" "missing_edits \<noteq> JNull"
    by (simp_all add: missing_edits_def well_shaped_plain_def)
  have f: "''rating'' \<in> set field_names" by (simp add: field_names_def)
  from validation_failure_uniform [of rating_as_string]
    validation_failure_uniform [of missing_edits] r m f
  show ?thesis by blast
qed

text \<open>
  Claim C6 as stated, a message that names the offending field, fails: a response whose
  rating is a string and a response without suggested edits are rejected with the same
  error, and its message mentions neither field.
\<close>

theorem validation_message_counterexample:
  "\<not> shape_ok rating_as_string \<and> \<not> shape_ok missing_edits
   \<and> typeValidation rating_as_string = Inl (Error structure_message)
   \<and> typeValidation missing_edits = Inl (Error structure_message)
   \<and> analyzeImage True (Inr rating_as_string) = analyzeImage True (Inr missing_edits)
   \<and> \<not> includes_str structure_message ''rating''
   \<and> \<not> includes_str structure_message ''suggested_edits''
   \<and> \<not> includes_str structure_message ''suggestedEdits''
   \<and> \<not> includes_str analysis_failed_message ''rating''
   \<and> \<not> includes_str analysis_failed_message ''suggested_edits''
   \<and> \<not> includes_str analysis_failed_message ''suggestedEdits''"
  by (simp add: rating_as_string_def missing_edits_def well_shaped_def typeValidation_def
      analyzeImage_def Let_def includes_str_def structure_message_def
      analysis_failed_message_def sublist_Cons_right)

section \<open>App: requests that are rejected before any call\<close>

text \<open>
  Claim C4. An edit requested while there is no analysis, or no selected file, changes
  nothing and starts no asynchronous work. An analysis requested while no file is
  selected starts none either: it only records the message asking for a file, and
  neither the loading flag nor the editing flag changes.
\<close>

theorem precondition_rejection:
  "(analysisResult s = None \<or> selectedFile s = None \<longrightarrow> handleEditClick s = (s, None))
   \<and> (selectedFile s = None \<longrightarrow>
         snd (handleAnalyzeClick s) = None
         \<and> fst (handleAnalyzeClick s) = s\<lparr>analysisError := Some ''Please select an image file first.''\<rparr>
         \<and> isLoadingAnalysis (fst (handleAnalyzeClick s)) = isLoadingAnalysis s
         \<and> isEditing (fst (handleAnalyzeClick s)) = isEditing s)"
  by (auto simp: handleEditClick_def handleAnalyzeClick_def split: option.split)

text \<open>
  Claim C4, in the initial state (no file, no analysis) and after a file was selected
  but not analysed.
\<close>

theorem precondition_rejection_witness:
  "analysisResult initial_app = None \<and> selectedFile initial_app = None
   \<and> handleEditClick initial_app = (initial_app, None)
   \<and> snd (handleAnalyzeClick initial_app) = None
   \<and> \<not> isLoadingAnalysis (fst (handleAnalyzeClick initial_app))
   \<and> \<not> isEditing (fst (handleAnalyzeClick initial_app))
   \<and> analysisResult selected_a = None \<and> selectedFile selected_a = Some photo_a
   \<and> handleEditClick selected_a = (selected_a, None)"
proof -
  have i: "analysisResult initial_app = None" "selectedFile initial_app = None"
    "\<not> isLoadingAnalysis initial_app" "\<not> isEditing initial_app"
    by (simp_all add: initial_app_def)
  have a: "analysisResult selected_a = None" "selectedFile selected_a = Some photo_a"
    by (simp_all add: selected_a_def initial_app_def handleImageSelect_def Let_def)
  from precondition_rejection [of initial_app] precondition_rejection [of selected_a] i a
  show ?thesis by simp
qed

section \<open>App: selecting an image while an analysis is outstanding\<close>

text \<open>
  Claim C1, as amended. When the user selects a new image while an analysis is loading,
  the handler records the new selection and clears the analysis, both errors and the
  edited image, but the loading flag stays set: the spinner is still shown. When the
  outstanding request then resolves successfully, its result is installed as the
  analysis and the loading flag is cleared.
\<close>

theorem select_during_analysis:
  assumes "isLoadingAnalysis s"
  shows "isLoadingAnalysis (handleImageSelect createObjectURL chosen s)
       \<and> showsSpinner (handleImageSelect createObjectURL chosen s)
       \<and> selectedFile (handleImageSelect createObjectURL chosen s) = chosen
       \<and> analysisResult (handleImageSelect createObjectURL chosen s) = None
       \<and> analysisError (handleImageSelect createObjectURL chosen s) = None
       \<and> editedImage (handleImageSelect createObjectURL chosen s) = None
       \<and> editError (handleImageSelect createObjectURL chosen s) = None
       \<and> handleAnalyzeClick_settled (Inr result) (handleImageSelect createObjectURL chosen s)
           = (handleImageSelect createObjectURL chosen s)
               \<lparr>analysisResult := Some result, isLoadingAnalysis := False\<rparr>"
  using assms
  by (simp add: handleImageSelect_def handleAnalyzeClick_settled_def showsSpinner_def Let_def
      split: option.split)

text \<open>
  Claim C1, as amended, for the second photo selected while the first is being analysed.
\<close>

theorem select_during_analysis_witness:
  "isLoadingAnalysis analyzing_a
   \<and> isLoadingAnalysis (handleImageSelect objectURL (Some photo_b) analyzing_a)
   \<and> selectedFile (handleImageSelect objectURL (Some photo_b) analyzing_a) = Some photo_b
   \<and> analysisResult (handleAnalyzeClick_settled (Inr example_analysis)
        (handleImageSelect objectURL (Some photo_b) analyzing_a)) = Some example_analysis
   \<and> \<not> isLoadingAnalysis (handleAnalyzeClick_settled (Inr example_analysis)
        (handleImageSelect objectURL (Some photo_b) analyzing_a))"
proof -
  have h: "isLoadingAnalysis analyzing_a"
    by (simp add: analyzing_a_def selected_a_def initial_app_def handleImageSelect_def
        handleAnalyzeClick_def Let_def)
  from select_during_analysis [OF h, of objectURL "Some photo_b" example_analysis] h
  show ?thesis by simp
qed

text \<open>
  Claim C1 as stated fails: with the first photo being analysed, selecting the second
  leaves the spinner on instead of showing the placeholder, and the analysis of the first
  photo, when it arrives, is installed and displayed while the second photo is selected.
\<close>

theorem stale_analysis_counterexample:
  "snd (handleAnalyzeClick selected_a) = Some (AnalyzePending photo_a)
   \<and> showsSpinner analyzing_a
   \<and> showsSpinner (handleImageSelect objectURL (Some photo_b) analyzing_a)
   \<and> \<not> showsPlaceholder (handleImageSelect objectURL (Some photo_b) analyzing_a)
   \<and> selectedFile (handleAnalyzeClick_settled (Inr example_analysis)
         (handleImageSelect objectURL (Some photo_b) analyzing_a)) = Some photo_b
   \<and> analysisResult (handleAnalyzeClick_settled (Inr example_analysis)
         (handleImageSelect objectURL (Some photo_b) analyzing_a)) = Some example_analysis
   \<and> showsAnalysis (handleAnalyzeClick_settled (Inr example_analysis)
         (handleImageSelect objectURL (Some photo_b) analyzing_a))"
  by (simp add: analyzing_a_def selected_a_def initial_app_def handleImageSelect_def
      handleAnalyzeClick_def handleAnalyzeClick_settled_def showsSpinner_def
      showsPlaceholder_def showsAnalysis_def example_analysis_def Let_def)

section \<open>App: re-analysing the edited image\<close>

text \<open>Every handler leaves in \<open>editedImage\<close> nothing but a URL of the kind it fetches.\<close>

lemma holds_data_url_preserved:
  assumes "holds_data_url s"
  shows "holds_data_url (handleImageSelect createObjectURL chosen s)"
    and "holds_data_url (fst (handleAnalyzeClick s))"
    and "holds_data_url (handleAnalyzeClick_settled analysed s)"
    and "holds_data_url (fst (handleEditClick s))"
    and "holds_data_url (handleEditClick_settled edited s)"
    and "holds_data_url (fst (handleReanalyzeEdited s))"
    and "holds_data_url (fst (handleReanalyzeEdited_fetched newImageSrc fetched s))"
    and "holds_data_url (handleReanalyzeEdited_settled analysed s)"
  using assms
  by (auto simp: holds_data_url_def png_data_url_prefix_def handleImageSelect_def
      handleAnalyzeClick_def
      handleAnalyzeClick_settled_def handleEditClick_def handleEditClick_settled_def
      handleReanalyzeEdited_def handleReanalyzeEdited_fetched_def
      handleReanalyzeEdited_settled_def Let_def split: option.splits sum.splits)

lemma png_data_url_nonempty: "png_data_url_prefix \<noteq> []"
  by (simp add: png_data_url_prefix_def)

lemma fetch_blob_data_url:
  "fetch_blob decodeBody (png_data_url_prefix @ body) =
     (case decodeBody body of
        Some bytes \<Rightarrow> Inr \<lparr>blob_type = ''image/png'', blob_data = bytes\<rparr>
      | None \<Rightarrow> Inl (TypeError ''Failed to fetch''))"
  by (simp add: fetch_blob_def)

lemma edited_url_built:
  "editedImage (handleEditClick_settled (Inr body) s) = Some (png_data_url_prefix @ body)"
  by (simp add: handleEditClick_settled_def png_data_url_prefix_def)

lemma edit_ready_a_fields:
  "editedImage edit_ready_a = Some (png_data_url_prefix @ ''EEEE'')"
  "previewUrl edit_ready_a = Some ''blob:a.jpg''"
  "selectedFile edit_ready_a = Some photo_a"
  "analysisResult edit_ready_a = Some example_analysis"
  by (simp_all add: edit_ready_a_def ready_a_def analyzing_a_def selected_a_def
      initial_app_def handleImageSelect_def handleAnalyzeClick_def
      handleAnalyzeClick_settled_def handleEditClick_def handleEditClick_settled_def
      example_analysis_def objectURL_def photo_a_def png_data_url_prefix_def Let_def)

lemma edit_ready_malformed_fields:
  "editedImage edit_ready_malformed = Some (png_data_url_prefix @ ''!!!!'')"
  "previewUrl edit_ready_malformed = Some ''blob:a.jpg''"
  "selectedFile edit_ready_malformed = Some photo_a"
  by (simp_all add: edit_ready_malformed_def ready_a_def analyzing_a_def selected_a_def
      initial_app_def handleImageSelect_def handleAnalyzeClick_def
      handleAnalyzeClick_settled_def handleEditClick_def handleEditClick_settled_def
      example_analysis_def objectURL_def photo_a_def png_data_url_prefix_def Let_def)

text \<open>
  Claim C5, as amended. Starting from a state that holds an edited image whose body
  decodes, a re-analysis that succeeds ends with the preview being exactly the edited
  image's URL, the same string, and with the selected file being a new file named
  \<^verbatim>\<open>improved-photo.png\<close>, of type \<^verbatim>\<open>image/png\<close>, holding the bytes that URL
  encodes, whatever the source was before: the edited image by content, built from it
  and requested for analysis, but an object of its own and not the edited image's value.
  The new analysis is installed and the edited image is cleared.
\<close>

theorem reanalysis_round_trip:
  assumes "editedImage s = Some (png_data_url_prefix @ body)"
    and "decodeBody body = Some bytes"
  shows "snd (handleReanalyzeEdited s)
           = Some (ReanalyzePending (png_data_url_prefix @ body))
       \<and> fetch_blob decodeBody (png_data_url_prefix @ body)
           = Inr \<lparr>blob_type = ''image/png'', blob_data = bytes\<rparr>
       \<and> snd (handleReanalyzeEdited_fetched (png_data_url_prefix @ body)
                 (fetch_blob decodeBody (png_data_url_prefix @ body))
                 (fst (handleReanalyzeEdited s)))
           = Some (AnalyzePending \<lparr>file_name = ''improved-photo.png'',
                                   file_type = ''image/png'', file_data = bytes\<rparr>)
       \<and> previewUrl (reanalyzeEdited_run decodeBody s (Inr result))
           = Some (png_data_url_prefix @ body)
       \<and> previewUrl_value (reanalyzeEdited_run decodeBody s (Inr result))
           = editedImage_value s
       \<and> selectedFile (reanalyzeEdited_run decodeBody s (Inr result))
           = Some \<lparr>file_name = ''improved-photo.png'',
                   file_type = ''image/png'', file_data = bytes\<rparr>
       \<and> selectedFile_value (reanalyzeEdited_run decodeBody s (Inr result))
           \<noteq> editedImage_value s
       \<and> analysisResult (reanalyzeEdited_run decodeBody s (Inr result)) = Some result
       \<and> analysisError (reanalyzeEdited_run decodeBody s (Inr result)) = None
       \<and> editedImage (reanalyzeEdited_run decodeBody s (Inr result)) = None
       \<and> \<not> isLoadingAnalysis (reanalyzeEdited_run decodeBody s (Inr result))"
  using assms
  by (simp add: reanalyzeEdited_run_def handleReanalyzeEdited_def fetch_blob_data_url
      png_data_url_nonempty handleReanalyzeEdited_fetched_def
      handleReanalyzeEdited_settled_def previewUrl_value_def selectedFile_value_def
      editedImage_value_def Let_def)

text \<open>
  Claim C5, as amended, for the first photo after an analysis and an edit: the source was
  the photo's object URL and file, and becomes the edited image's URL and a file of its
  bytes.
\<close>

theorem reanalysis_round_trip_witness:
  "editedImage edit_ready_a = Some (png_data_url_prefix @ ''EEEE'')
   \<and> sample_decodeBody ''EEEE'' = Some [CHR 0x10, CHR 0x41, CHR 0x04]
   \<and> previewUrl edit_ready_a = Some ''blob:a.jpg''
   \<and> selectedFile edit_ready_a = Some photo_a
   \<and> previewUrl (reanalyzeEdited_run sample_decodeBody edit_ready_a (Inr example_analysis))
       = Some ''data:image/png;base64,EEEE''
   \<and> selectedFile (reanalyzeEdited_run sample_decodeBody edit_ready_a (Inr example_analysis))
       = Some \<lparr>file_name = ''improved-photo.png'', file_type = ''image/png'',
               file_data = [CHR 0x10, CHR 0x41, CHR 0x04]\<rparr>
   \<and> analysisResult
         (reanalyzeEdited_run sample_decodeBody edit_ready_a (Inr example_analysis))
       = Some example_analysis"
proof -
  have d: "sample_decodeBody ''EEEE'' = Some [CHR 0x10, CHR 0x41, CHR 0x04]"
    by (simp add: sample_decodeBody_def)
  from reanalysis_round_trip [where decodeBody = sample_decodeBody and body = "''EEEE''"
      and result = example_analysis, OF edit_ready_a_fields(1) d]
    edit_ready_a_fields d
  show ?thesis by (simp add: png_data_url_prefix_def)
qed

text \<open>
  Claim C5 as stated, the source being the edited image itself by reference, fails for
  the selected file: after the round trip the preview is the edited image's URL, but the
  file is an object made from it, which the edited image, a string, cannot be.
\<close>

theorem source_file_identity_counterexample:
  "editedImage_value edit_ready_a = Some (JSString ''data:image/png;base64,EEEE'')
   \<and> previewUrl_value
         (reanalyzeEdited_run sample_decodeBody edit_ready_a (Inr example_analysis))
       = Some (JSString ''data:image/png;base64,EEEE'')
   \<and> selectedFile_value
         (reanalyzeEdited_run sample_decodeBody edit_ready_a (Inr example_analysis))
       = Some (JSFile \<lparr>file_name = ''improved-photo.png'', file_type = ''image/png'',
                       file_data = [CHR 0x10, CHR 0x41, CHR 0x04]\<rparr>)
   \<and> selectedFile_value
         (reanalyzeEdited_run sample_decodeBody edit_ready_a (Inr example_analysis))
       \<noteq> editedImage_value edit_ready_a"
proof -
  have d: "sample_decodeBody ''EEEE'' = Some [CHR 0x10, CHR 0x41, CHR 0x04]"
    by (simp add: sample_decodeBody_def)
  have r: "reanalyzeEdited_run sample_decodeBody edit_ready_a (Inr example_analysis)
      = edit_ready_a\<lparr>isLoadingAnalysis := False, analysisResult := Some example_analysis,
          analysisError := None, editedImage := None, isEditing := False,
          editError := None,
          selectedFile := Some \<lparr>file_name = ''improved-photo.png'',
            file_type = ''image/png'', file_data = [CHR 0x10, CHR 0x41, CHR 0x04]\<rparr>,
          previewUrl := Some (png_data_url_prefix @ ''EEEE'')\<rparr>"
    using edit_ready_a_fields(1) d
    by (simp add: reanalyzeEdited_run_def handleReanalyzeEdited_def fetch_blob_data_url
        png_data_url_nonempty handleReanalyzeEdited_fetched_def
        handleReanalyzeEdited_settled_def Let_def)
  show ?thesis
    unfolding r using edit_ready_a_fields(1)
    by (simp add: previewUrl_value_def selectedFile_value_def editedImage_value_def
        png_data_url_prefix_def)
qed

text \<open>
  Claim C10, as amended. Requesting a re-analysis clears the edited image, the analysis
  and the edit error at once, before anything is awaited. When the edited image is
  fetched, the source (file and preview) is replaced by it before the analysis is
  requested, and when that analysis fails the state ends with the analysis error set and
  shown, the edited image and the analysis gone and the source replaced. When fetching
  the edited image fails, the state ends with the same error set and shown and the edited
  image and the analysis gone, but with the source it had. In neither case is it the
  state the request started from.
\<close>

theorem reanalysis_not_atomic:
  assumes "editedImage s = Some (png_data_url_prefix @ body)"
  shows "editedImage (fst (handleReanalyzeEdited s)) = None
       \<and> analysisResult (fst (handleReanalyzeEdited s)) = None
       \<and> editError (fst (handleReanalyzeEdited s)) = None
       \<and> isLoadingAnalysis (fst (handleReanalyzeEdited s))
       \<and> snd (handleReanalyzeEdited s)
           = Some (ReanalyzePending (png_data_url_prefix @ body))
       \<and> (decodeBody body = Some bytes \<longrightarrow>
            selectedFile (fst (handleReanalyzeEdited_fetched (png_data_url_prefix @ body)
                (fetch_blob decodeBody (png_data_url_prefix @ body))
                (fst (handleReanalyzeEdited s))))
              = Some \<lparr>file_name = ''improved-photo.png'',
                      file_type = ''image/png'', file_data = bytes\<rparr>
            \<and> previewUrl (fst (handleReanalyzeEdited_fetched (png_data_url_prefix @ body)
                (fetch_blob decodeBody (png_data_url_prefix @ body))
                (fst (handleReanalyzeEdited s))))
              = Some (png_data_url_prefix @ body)
            \<and> snd (handleReanalyzeEdited_fetched (png_data_url_prefix @ body)
                (fetch_blob decodeBody (png_data_url_prefix @ body))
                (fst (handleReanalyzeEdited s)))
              = Some (AnalyzePending \<lparr>file_name = ''improved-photo.png'',
                                      file_type = ''image/png'', file_data = bytes\<rparr>)
            \<and> analysisError (reanalyzeEdited_run decodeBody s (Inl err))
              = Some ''Failed to re-analyze the improved image.''
            \<and> showsAnalysisError (reanalyzeEdited_run decodeBody s (Inl err))
            \<and> \<not> isLoadingAnalysis (reanalyzeEdited_run decodeBody s (Inl err))
            \<and> editedImage (reanalyzeEdited_run decodeBody s (Inl err)) = None
            \<and> analysisResult (reanalyzeEdited_run decodeBody s (Inl err)) = None
            \<and> editError (reanalyzeEdited_run decodeBody s (Inl err)) = None
            \<and> selectedFile (reanalyzeEdited_run decodeBody s (Inl err))
              = Some \<lparr>file_name = ''improved-photo.png'',
                      file_type = ''image/png'', file_data = bytes\<rparr>
            \<and> previewUrl (reanalyzeEdited_run decodeBody s (Inl err))
              = Some (png_data_url_prefix @ body)
            \<and> reanalyzeEdited_run decodeBody s (Inl err) \<noteq> s)
       \<and> (decodeBody body = None \<longrightarrow>
            analysisError (reanalyzeEdited_run decodeBody s analysed)
              = Some ''Failed to re-analyze the improved image.''
            \<and> showsAnalysisError (reanalyzeEdited_run decodeBody s analysed)
            \<and> \<not> isLoadingAnalysis (reanalyzeEdited_run decodeBody s analysed)
            \<and> editedImage (reanalyzeEdited_run decodeBody s analysed) = None
            \<and> analysisResult (reanalyzeEdited_run decodeBody s analysed) = None
            \<and> editError (reanalyzeEdited_run decodeBody s analysed) = None
            \<and> selectedFile (reanalyzeEdited_run decodeBody s analysed) = selectedFile s
            \<and> previewUrl (reanalyzeEdited_run decodeBody s analysed) = previewUrl s
            \<and> reanalyzeEdited_run decodeBody s analysed \<noteq> s)"
proof -
  let ?url = "png_data_url_prefix @ body"
  let ?new = "\<lparr>file_name = ''improved-photo.png'', file_type = ''image/png'',
               file_data = bytes\<rparr>"
  have cleared: "editedImage (reanalyzeEdited_run decodeBody s outcome) = None" for outcome
    using assms
    by (simp add: reanalyzeEdited_run_def handleReanalyzeEdited_def fetch_blob_data_url
        png_data_url_nonempty handleReanalyzeEdited_fetched_def
        handleReanalyzeEdited_settled_def Let_def split: option.split sum.split)
  have changed: "reanalyzeEdited_run decodeBody s outcome \<noteq> s" for outcome
  proof
    assume "reanalyzeEdited_run decodeBody s outcome = s"
    with cleared [of outcome] have "editedImage s = None" by simp
    with assms show False by simp
  qed
  have sync: "editedImage (fst (handleReanalyzeEdited s)) = None
      \<and> analysisResult (fst (handleReanalyzeEdited s)) = None
      \<and> editError (fst (handleReanalyzeEdited s)) = None
      \<and> isLoadingAnalysis (fst (handleReanalyzeEdited s))
      \<and> snd (handleReanalyzeEdited s) = Some (ReanalyzePending ?url)"
    using assms by (simp add: handleReanalyzeEdited_def png_data_url_nonempty)
  have fetched: "selectedFile (fst (handleReanalyzeEdited_fetched ?url
          (fetch_blob decodeBody ?url) (fst (handleReanalyzeEdited s)))) = Some ?new
      \<and> previewUrl (fst (handleReanalyzeEdited_fetched ?url
          (fetch_blob decodeBody ?url) (fst (handleReanalyzeEdited s)))) = Some ?url
      \<and> snd (handleReanalyzeEdited_fetched ?url
          (fetch_blob decodeBody ?url) (fst (handleReanalyzeEdited s)))
        = Some (AnalyzePending ?new)"
    if "decodeBody body = Some bytes"
    using that by (simp add: fetch_blob_data_url handleReanalyzeEdited_fetched_def Let_def)
  have failed_analysis: "reanalyzeEdited_run decodeBody s (Inl err)
      = s\<lparr>analysisResult := None, editedImage := None, isEditing := False,
           editError := None, selectedFile := Some ?new, previewUrl := Some ?url,
           analysisError := Some ''Failed to re-analyze the improved image.'',
           isLoadingAnalysis := False\<rparr>"
    if "decodeBody body = Some bytes"
    using assms that
    by (simp add: reanalyzeEdited_run_def handleReanalyzeEdited_def fetch_blob_data_url
        png_data_url_nonempty handleReanalyzeEdited_fetched_def
        handleReanalyzeEdited_settled_def Let_def)
  have failed_fetch: "reanalyzeEdited_run decodeBody s analysed
      = s\<lparr>analysisResult := None, editedImage := None, isEditing := False,
           editError := None,
           analysisError := Some ''Failed to re-analyze the improved image.'',
           isLoadingAnalysis := False\<rparr>"
    if "decodeBody body = None"
    using assms that
    by (simp add: reanalyzeEdited_run_def handleReanalyzeEdited_def fetch_blob_data_url
        png_data_url_nonempty handleReanalyzeEdited_fetched_def Let_def)
  have a: "decodeBody body = Some bytes \<longrightarrow>
      analysisError (reanalyzeEdited_run decodeBody s (Inl err))
        = Some ''Failed to re-analyze the improved image.''
      \<and> showsAnalysisError (reanalyzeEdited_run decodeBody s (Inl err))
      \<and> \<not> isLoadingAnalysis (reanalyzeEdited_run decodeBody s (Inl err))
      \<and> editedImage (reanalyzeEdited_run decodeBody s (Inl err)) = None
      \<and> analysisResult (reanalyzeEdited_run decodeBody s (Inl err)) = None
      \<and> editError (reanalyzeEdited_run decodeBody s (Inl err)) = None
      \<and> selectedFile (reanalyzeEdited_run decodeBody s (Inl err)) = Some ?new
      \<and> previewUrl (reanalyzeEdited_run decodeBody s (Inl err)) = Some ?url"
    by (simp add: failed_analysis showsAnalysisError_def)
  have b: "decodeBody body = None \<longrightarrow>
      analysisError (reanalyzeEdited_run decodeBody s analysed)
        = Some ''Failed to re-analyze the improved image.''
      \<and> showsAnalysisError (reanalyzeEdited_run decodeBody s analysed)
      \<and> \<not> isLoadingAnalysis (reanalyzeEdited_run decodeBody s analysed)
      \<and> editedImage (reanalyzeEdited_run decodeBody s analysed) = None
      \<and> analysisResult (reanalyzeEdited_run decodeBody s analysed) = None
      \<and> editError (reanalyzeEdited_run decodeBody s analysed) = None
      \<and> selectedFile (reanalyzeEdited_run decodeBody s analysed) = selectedFile s
      \<and> previewUrl (reanalyzeEdited_run decodeBody s analysed) = previewUrl s"
    by (simp add: failed_fetch showsAnalysisError_def)
  from sync fetched a b changed [of "Inl err"] changed [of analysed]
  show ?thesis by blast
qed

text \<open>
  Claim C10, as amended, for the first photo after an analysis and an edit: once with the
  analysis of the fetched image failing, once with an edited image whose body does not
  decode.
\<close>

theorem reanalysis_not_atomic_witness:
  "editedImage edit_ready_a = Some (png_data_url_prefix @ ''EEEE'')
   \<and> sample_decodeBody ''EEEE'' = Some [CHR 0x10, CHR 0x41, CHR 0x04]
   \<and> selectedFile edit_ready_a = Some photo_a
   \<and> analysisError (reanalyzeEdited_run sample_decodeBody edit_ready_a
        (Inl (Error analysis_failed_message))) = Some ''Failed to re-analyze the improved image.''
   \<and> editedImage (reanalyzeEdited_run sample_decodeBody edit_ready_a
        (Inl (Error analysis_failed_message))) = None
   \<and> selectedFile (reanalyzeEdited_run sample_decodeBody edit_ready_a
        (Inl (Error analysis_failed_message)))
       = Some \<lparr>file_name = ''improved-photo.png'', file_type = ''image/png'',
               file_data = [CHR 0x10, CHR 0x41, CHR 0x04]\<rparr>
   \<and> previewUrl (reanalyzeEdited_run sample_decodeBody edit_ready_a
        (Inl (Error analysis_failed_message))) = Some ''data:image/png;base64,EEEE''
   \<and> editedImage edit_ready_malformed = Some (png_data_url_prefix @ ''!!!!'')
   \<and> sample_decodeBody ''!!!!'' = None
   \<and> analysisError (reanalyzeEdited_run sample_decodeBody edit_ready_malformed
        (Inr example_analysis)) = Some ''Failed to re-analyze the improved image.''
   \<and> editedImage (reanalyzeEdited_run sample_decodeBody edit_ready_malformed
        (Inr example_analysis)) = None
   \<and> selectedFile (reanalyzeEdited_run sample_decodeBody edit_ready_malformed
        (Inr example_analysis)) = Some photo_a"
proof -
  have d: "sample_decodeBody ''EEEE'' = Some [CHR 0x10, CHR 0x41, CHR 0x04]"
    and m: "sample_decodeBody ''!!!!'' = None"
    by (simp_all add: sample_decodeBody_def)
  from reanalysis_not_atomic [where decodeBody = sample_decodeBody and body = "''EEEE''"
      and bytes = "[CHR 0x10, CHR 0x41, CHR 0x04]" and err = "Error analysis_failed_message",
      OF edit_ready_a_fields(1)]
    reanalysis_not_atomic [where decodeBody = sample_decodeBody and body = "''!!!!''"
      and analysed = "Inr example_analysis", OF edit_ready_malformed_fields(1)]
    edit_ready_a_fields edit_ready_malformed_fields d m
  show ?thesis by (simp add: png_data_url_prefix_def)
qed

text \<open>
  Claim C10 as stated, the source being replaced whenever the re-analysis fails, fails
  when it is the fetch of the edited image that fails: for an edited image whose body is
  not base64 the re-analysis ends in the error state with the edited image discarded,
  and the selected file and the preview are still those of the first photo.
\<close>

theorem reanalysis_fetch_failure_counterexample:
  "editedImage edit_ready_malformed = Some ''data:image/png;base64,!!!!''
   \<and> fetch_blob sample_decodeBody ''data:image/png;base64,!!!!''
       = Inl (TypeError ''Failed to fetch'')
   \<and> analysisError (reanalyzeEdited_run sample_decodeBody edit_ready_malformed
        (Inr example_analysis)) = Some ''Failed to re-analyze the improved image.''
   \<and> showsAnalysisError (reanalyzeEdited_run sample_decodeBody edit_ready_malformed
        (Inr example_analysis))
   \<and> editedImage (reanalyzeEdited_run sample_decodeBody edit_ready_malformed
        (Inr example_analysis)) = None
   \<and> selectedFile (reanalyzeEdited_run sample_decodeBody edit_ready_malformed
        (Inr example_analysis)) = Some photo_a
   \<and> previewUrl (reanalyzeEdited_run sample_decodeBody edit_ready_malformed
        (Inr example_analysis)) = Some ''blob:a.jpg''"
proof -
  have f: "fetch_blob sample_decodeBody (png_data_url_prefix @ ''!!!!'')
      = Inl (TypeError ''Failed to fetch'')"
    by (simp add: fetch_blob_data_url sample_decodeBody_def)
  have u: "''data:image/png;base64,!!!!'' = png_data_url_prefix @ ''!!!!''"
    by (simp add: png_data_url_prefix_def)
  have r: "reanalyzeEdited_run sample_decodeBody edit_ready_malformed (Inr example_analysis)
      = edit_ready_malformed\<lparr>analysisResult := None, editedImage := None,
          isEditing := False, editError := None,
          analysisError := Some ''Failed to re-analyze the improved image.'',
          isLoadingAnalysis := False\<rparr>"
    using edit_ready_malformed_fields(1) f
    by (simp add: reanalyzeEdited_run_def handleReanalyzeEdited_def png_data_url_nonempty
        handleReanalyzeEdited_fetched_def Let_def)
  show ?thesis
    unfolding r u using edit_ready_malformed_fields f
    by (simp add: showsAnalysisError_def)
qed


end
